theory Spec2Isabelle
  imports Main "HOL-Library.Word" "HOL-Library.Sublist"
begin

section \<open>Strings\<close>

text \<open>
  An ECMAScript string is a finite sequence of 16-bit code units. String literals of
  the source are written with \<open>js\<close>, which maps every ASCII character to its code unit;
  the three non-ASCII letters of the configuration message are given by their code
  units (U+00F3 and U+00F1).
\<close>

type_synonym code_unit = "16 word"
type_synonym jsstring = "code_unit list"

definition js :: "string \<Rightarrow> jsstring" where
  "js s = map of_char s"

text \<open>\<open>String.prototype.startsWith\<close> and \<open>String.prototype.includes\<close>, both from position 0.\<close>

fun startsWith :: "jsstring \<Rightarrow> jsstring \<Rightarrow> bool" where
  "startsWith s [] = True"
| "startsWith [] (p # ps) = False"
| "startsWith (c # cs) (p # ps) = (c = p \<and> startsWith cs ps)"

fun str_includes :: "jsstring \<Rightarrow> jsstring \<Rightarrow> bool" where
  "str_includes [] p = startsWith [] p"
| "str_includes (c # cs) p = (startsWith (c # cs) p \<or> str_includes cs p)"

text \<open>
  \<open>String.prototype.trim\<close> removes leading and trailing WhiteSpace and LineTerminator
  code units (ECMA-262, StrWhiteSpaceChar).
\<close>

definition is_trim_space :: "code_unit \<Rightarrow> bool" where
  "is_trim_space c \<longleftrightarrow>
     c = 0x0009 \<or> c = 0x000A \<or> c = 0x000B \<or> c = 0x000C \<or> c = 0x000D \<or> c = 0x0020 \<or>
     c = 0x00A0 \<or> c = 0x1680 \<or> (0x2000 \<le> c \<and> c \<le> 0x200A) \<or> c = 0x2028 \<or>
     c = 0x2029 \<or> c = 0x202F \<or> c = 0x205F \<or> c = 0x3000 \<or> c = 0xFEFF"

definition trim :: "jsstring \<Rightarrow> jsstring" where
  "trim s = rev (dropWhile is_trim_space (rev (dropWhile is_trim_space s)))"

section \<open>JSON values and \<open>JSON.parse\<close>\<close>

text \<open>
  The values \<open>JSON.parse\<close> can produce. An object keeps its properties in creation
  order; a number keeps the literal it was read from (its conversion to a double is
  not modelled: the service never inspects a number).
\<close>

datatype json =
    JNull
  | JBool bool
  | JNumber jsstring
  | JString jsstring
  | JArray "json list"
  | JObject "(jsstring \<times> json) list"

text \<open>
  \<open>CreateDataProperty\<close>: a repeated key replaces the value of the existing property,
  a new key is appended.
\<close>

fun set_prop :: "(jsstring \<times> json) list \<Rightarrow> jsstring \<Rightarrow> json \<Rightarrow> (jsstring \<times> json) list" where
  "set_prop [] k v = [(k, v)]"
| "set_prop ((k', v') # ms) k v = (if k' = k then (k, v) # ms else (k', v') # set_prop ms k v)"

subsection \<open>Tokens\<close>

datatype token =
    TLBrace | TRBrace | TLBrack | TRBrack | TColon | TComma
  | TString jsstring | TNumber jsstring | TTrue | TFalse | TNull

definition is_json_space :: "code_unit \<Rightarrow> bool" where
  "is_json_space c \<longleftrightarrow> c = 0x09 \<or> c = 0x0A \<or> c = 0x0D \<or> c = 0x20"

definition is_digit :: "code_unit \<Rightarrow> bool" where
  "is_digit c \<longleftrightarrow> 0x30 \<le> c \<and> c \<le> 0x39"

definition hex_val :: "code_unit \<Rightarrow> code_unit option" where
  "hex_val c =
     (if 0x30 \<le> c \<and> c \<le> 0x39 then Some (c - 0x30)
      else if 0x41 \<le> c \<and> c \<le> 0x46 then Some (c - 0x37)
      else if 0x61 \<le> c \<and> c \<le> 0x66 then Some (c - 0x57)
      else None)"

definition hex4 :: "code_unit \<Rightarrow> code_unit \<Rightarrow> code_unit \<Rightarrow> code_unit \<Rightarrow> code_unit option" where
  "hex4 a b c d =
     (case (hex_val a, hex_val b, hex_val c, hex_val d) of
        (Some x, Some y, Some z, Some w) \<Rightarrow> Some (x * 0x1000 + y * 0x100 + z * 0x10 + w)
      | _ \<Rightarrow> None)"

text \<open>The single-character escapes: quote, solidus, reverse solidus, b, f, n, r, t.\<close>

definition escape_val :: "code_unit \<Rightarrow> code_unit option" where
  "escape_val e =
     (if e = 0x22 then Some 0x22
      else if e = 0x2F then Some 0x2F
      else if e = 0x5C then Some 0x5C
      else if e = 0x62 then Some 0x08
      else if e = 0x66 then Some 0x0C
      else if e = 0x6E then Some 0x0A
      else if e = 0x72 then Some 0x0D
      else if e = 0x74 then Some 0x09
      else None)"

text \<open>
  \<open>lex_string\<close> reads the characters of a string literal after its opening quote and
  returns the decoded string with the input that follows the closing quote. Control
  characters below U+0020 are not allowed unescaped.
\<close>

fun lex_string :: "jsstring \<Rightarrow> (jsstring \<times> jsstring) option" where
  "lex_string [] = None"
| "lex_string (c # cs) =
     (if c = 0x22 then Some ([], cs)
      else if c = 0x5C then
        (case cs of
           [] \<Rightarrow> None
         | e # cs1 \<Rightarrow>
             if e = 0x75 then
               (case cs1 of
                  h1 # h2 # h3 # h4 # cs2 \<Rightarrow>
                    (case hex4 h1 h2 h3 h4 of
                       None \<Rightarrow> None
                     | Some u \<Rightarrow> map_option (\<lambda>(s, r). (u # s, r)) (lex_string cs2))
                | _ \<Rightarrow> None)
             else
               (case escape_val e of
                  None \<Rightarrow> None
                | Some u \<Rightarrow> map_option (\<lambda>(s, r). (u # s, r)) (lex_string cs1)))
      else if c < 0x20 then None
      else map_option (\<lambda>(s, r). (c # s, r)) (lex_string cs))"

text \<open>
  \<open>lex_number\<close> reads a number literal: an optional minus, an integer part without
  leading zeros, an optional fraction and an optional exponent.
\<close>

definition lex_digits :: "jsstring \<Rightarrow> (jsstring \<times> jsstring) option" where
  "lex_digits cs =
     (if takeWhile is_digit cs = [] then None
      else Some (takeWhile is_digit cs, dropWhile is_digit cs))"

definition lex_int :: "jsstring \<Rightarrow> (jsstring \<times> jsstring) option" where
  "lex_int cs =
     (case cs of
        [] \<Rightarrow> None
      | d # r \<Rightarrow> if d = 0x30 then Some ([d], r) else lex_digits cs)"

definition lex_frac :: "jsstring \<Rightarrow> (jsstring \<times> jsstring) option" where
  "lex_frac cs =
     (case cs of
        [] \<Rightarrow> Some ([], cs)
      | d # r \<Rightarrow>
          if d = 0x2E then map_option (\<lambda>(ds, r'). (d # ds, r')) (lex_digits r)
          else Some ([], cs))"

definition lex_exp :: "jsstring \<Rightarrow> (jsstring \<times> jsstring) option" where
  "lex_exp cs =
     (case cs of
        [] \<Rightarrow> Some ([], cs)
      | e # r \<Rightarrow>
          if e = 0x65 \<or> e = 0x45 then
            (case r of
               [] \<Rightarrow> None
             | s # r' \<Rightarrow>
                 if s = 0x2B \<or> s = 0x2D
                 then map_option (\<lambda>(ds, r''). (e # s # ds, r'')) (lex_digits r')
                 else map_option (\<lambda>(ds, r''). (e # ds, r'')) (lex_digits r))
          else Some ([], cs))"

definition lex_number :: "jsstring \<Rightarrow> (jsstring \<times> jsstring) option" where
  "lex_number cs =
     (let (sign, r0) = (case cs of
                          [] \<Rightarrow> ([], cs)
                        | c # r \<Rightarrow> if c = 0x2D then ([c], r) else ([], cs))
      in case lex_int r0 of
           None \<Rightarrow> None
         | Some (i, r1) \<Rightarrow>
             (case lex_frac r1 of
                None \<Rightarrow> None
              | Some (f, r2) \<Rightarrow>
                  (case lex_exp r2 of
                     None \<Rightarrow> None
                   | Some (e, r3) \<Rightarrow> Some (sign @ i @ f @ e, r3))))"

lemma lex_string_shorter: "lex_string cs = Some (s, r) \<Longrightarrow> length r < length cs"
proof (induction cs arbitrary: s r rule: lex_string.induct)
  case 1
  then show ?case by simp
next
  case (2 c cs)
  then show ?case
    by (fastforce split: if_splits list.splits option.splits)
qed

lemma lex_digits_shorter: "lex_digits cs = Some (s, r) \<Longrightarrow> length r < length cs"
proof -
  assume a: "lex_digits cs = Some (s, r)"
  then have "takeWhile is_digit cs \<noteq> []" and "r = dropWhile is_digit cs"
    by (auto simp: lex_digits_def split: if_splits)
  moreover have "length (takeWhile is_digit cs) + length (dropWhile is_digit cs) = length cs"
    by (metis length_append takeWhile_dropWhile_id)
  ultimately show ?thesis
    by (cases "takeWhile is_digit cs") auto
qed

lemma lex_int_shorter: "lex_int cs = Some (s, r) \<Longrightarrow> length r < length cs"
  by (auto simp: lex_int_def split: list.splits if_splits dest: lex_digits_shorter)

lemma lex_frac_shorter: "lex_frac cs = Some (s, r) \<Longrightarrow> length r \<le> length cs"
  by (auto simp: lex_frac_def split: list.splits if_splits dest!: lex_digits_shorter)

lemma lex_exp_shorter: "lex_exp cs = Some (s, r) \<Longrightarrow> length r \<le> length cs"
  by (auto simp: lex_exp_def split: list.splits if_splits dest!: lex_digits_shorter)

lemma lex_number_shorter: "lex_number cs = Some (s, r) \<Longrightarrow> length r < length cs"
proof -
  assume a: "lex_number cs = Some (s, r)"
  obtain sign r0 where sr: "(case cs of [] \<Rightarrow> ([], cs)
      | c # r \<Rightarrow> if c = 0x2D then ([c], r) else ([], cs)) = (sign, r0)"
    by (cases "(case cs of [] \<Rightarrow> ([]::jsstring, cs)
      | c # r \<Rightarrow> if c = 0x2D then ([c], r) else ([], cs))") auto
  then have l0: "length r0 \<le> length cs"
    by (auto split: list.splits if_splits)
  from a sr obtain i r1 f r2 e where
    "lex_int r0 = Some (i, r1)" "lex_frac r1 = Some (f, r2)" "lex_exp r2 = Some (e, r)"
    by (auto simp: lex_number_def split: option.splits)
  then have "length r1 < length r0" "length r2 \<le> length r1" "length r \<le> length r2"
    by (auto dest: lex_int_shorter lex_frac_shorter lex_exp_shorter)
  with l0 show ?thesis by simp
qed

text \<open>
  The tokens of a JSON text, or \<open>None\<close> when some input is not a token. White space
  between tokens is tab, line feed, carriage return and space.
\<close>

function tokenize :: "jsstring \<Rightarrow> token list option" where
  "tokenize [] = Some []"
| "tokenize (c # cs) =
     (if is_json_space c then tokenize cs
      else if c = 0x7B then map_option ((#) TLBrace) (tokenize cs)
      else if c = 0x7D then map_option ((#) TRBrace) (tokenize cs)
      else if c = 0x5B then map_option ((#) TLBrack) (tokenize cs)
      else if c = 0x5D then map_option ((#) TRBrack) (tokenize cs)
      else if c = 0x3A then map_option ((#) TColon) (tokenize cs)
      else if c = 0x2C then map_option ((#) TComma) (tokenize cs)
      else if c = 0x22 then
        (case lex_string cs of
           None \<Rightarrow> None
         | Some (s, r) \<Rightarrow> map_option ((#) (TString s)) (tokenize r))
      else if c = 0x2D \<or> is_digit c then
        (case lex_number (c # cs) of
           None \<Rightarrow> None
         | Some (n, r) \<Rightarrow> map_option ((#) (TNumber n)) (tokenize r))
      else if startsWith (c # cs) (js ''true'') then map_option ((#) TTrue) (tokenize (drop 3 cs))
      else if startsWith (c # cs) (js ''false'') then map_option ((#) TFalse) (tokenize (drop 4 cs))
      else if startsWith (c # cs) (js ''null'') then map_option ((#) TNull) (tokenize (drop 3 cs))
      else None)"
  by pat_completeness auto
termination
  by (relation "measure length")
     (auto dest: lex_string_shorter lex_number_shorter intro: le_imp_less_Suc)

subsection \<open>Grammar\<close>

text \<open>
  The grammar is read by a pushdown automaton that consumes one token per step. A
  frame of the stack is an array or an object under construction; \<open>InObj ms k\<close> waits
  for the value of key \<open>k\<close>.
\<close>

datatype frame =
    InArr "json list"
  | InObj "(jsstring \<times> json) list" jsstring

datatype pstate =
    PValue
  | PArr0
  | PObj0
  | PKey "(jsstring \<times> json) list"
  | PColon "(jsstring \<times> json) list" jsstring
  | PDone json

fun begin_value :: "token \<Rightarrow> frame list \<Rightarrow> (pstate \<times> frame list) option" where
  "begin_value (TString s) st = Some (PDone (JString s), st)"
| "begin_value (TNumber n) st = Some (PDone (JNumber n), st)"
| "begin_value TTrue st = Some (PDone (JBool True), st)"
| "begin_value TFalse st = Some (PDone (JBool False), st)"
| "begin_value TNull st = Some (PDone JNull, st)"
| "begin_value TLBrack st = Some (PArr0, InArr [] # st)"
| "begin_value TLBrace st = Some (PObj0, st)"
| "begin_value _ st = None"

fun pstep :: "pstate \<times> frame list \<Rightarrow> token \<Rightarrow> (pstate \<times> frame list) option" where
  "pstep (PValue, st) t = begin_value t st"
| "pstep (PArr0, InArr es # st) TRBrack = Some (PDone (JArray es), st)"
| "pstep (PArr0, st) t = begin_value t st"
| "pstep (PObj0, st) TRBrace = Some (PDone (JObject []), st)"
| "pstep (PObj0, st) (TString k) = Some (PColon [] k, st)"
| "pstep (PKey ms, st) (TString k) = Some (PColon ms k, st)"
| "pstep (PColon ms k, st) TColon = Some (PValue, InObj ms k # st)"
| "pstep (PDone v, InArr es # st) TComma = Some (PValue, InArr (es @ [v]) # st)"
| "pstep (PDone v, InArr es # st) TRBrack = Some (PDone (JArray (es @ [v])), st)"
| "pstep (PDone v, InObj ms k # st) TComma = Some (PKey (set_prop ms k v), st)"
| "pstep (PDone v, InObj ms k # st) TRBrace = Some (PDone (JObject (set_prop ms k v)), st)"
| "pstep _ _ = None"

fun prun :: "pstate \<times> frame list \<Rightarrow> token list \<Rightarrow> json option" where
  "prun (PDone v, []) [] = Some v"
| "prun c [] = None"
| "prun c (t # ts) = (case pstep c t of None \<Rightarrow> None | Some c' \<Rightarrow> prun c' ts)"

text \<open>
  \<open>parse_json s\<close> is the value of \<open>JSON.parse(s)\<close>, or \<open>None\<close> where \<open>JSON.parse\<close>
  throws a SyntaxError.
\<close>

definition parse_json :: "jsstring \<Rightarrow> json option" where
  "parse_json s = (case tokenize s of None \<Rightarrow> None | Some ts \<Rightarrow> prun (PValue, []) ts)"

section \<open>Thrown values and the host\<close>

text \<open>
  A thrown value is an \<open>Error\<close> instance, with its \<open>name\<close> and \<open>message\<close>, or some
  other value (\<open>instanceof Error\<close> is false). \<open>new Error(m)\<close> has the name \<open>Error\<close>.
  A computation that may throw returns \<open>thrown + 'a\<close>, with \<open>Inl\<close> for the throw.
\<close>

datatype thrown =
    ErrorObject (error_name: jsstring) (error_message: jsstring)
  | NonError

definition new_Error :: "jsstring \<Rightarrow> thrown" where
  "new_Error m = ErrorObject (js ''Error'') m"

datatype client = GoogleGenAI (apiKey: jsstring)

text \<open>The enumerations \<open>Type\<close> and \<open>Modality\<close> of the SDK, as far as the service uses them.\<close>

datatype schema_type = OBJECT | ARRAY | STRING

datatype modality = IMAGE | TEXT

datatype schema =
  Schema (schema_type: schema_type) (schema_description: "jsstring option")
    (schema_properties: "(jsstring \<times> schema) list") (schema_items: "schema option")
    (schema_required: "jsstring list")

text \<open>
  A part of a request or of a response: each field may be absent. \<open>blob_data\<close> is
  absent where the source reads index 1 of a split that has a single piece.
\<close>

record blob =
  blob_data :: "jsstring option"
  blob_mimeType :: jsstring

record part =
  part_text :: "jsstring option"
  part_inlineData :: "blob option"

record images_config =
  numberOfImages :: int
  outputMimeType :: jsstring
  aspectRatio :: jsstring

record images_request =
  img_model :: jsstring
  img_prompt :: jsstring
  img_config :: images_config

datatype contents = Prompt jsstring | Parts "part list"

record content_config =
  responseMimeType :: "jsstring option"
  responseSchema :: "schema option"
  responseModalities :: "modality list option"

record content_request =
  gc_model :: jsstring
  gc_contents :: contents
  gc_config :: "content_config option"

text \<open>
  The responses, with the fields the service reads. A generated image may lack its
  \<open>image\<close>, and an image its \<open>imageBytes\<close>; \<open>response_text\<close> is \<open>response.text\<close>, a
  string or \<open>undefined\<close> (\<open>None\<close>) when the response has no text; an element of
  \<open>candidates\<close> is the list \<open>candidate.content.parts\<close> of one candidate.
\<close>

record image_data =
  imageBytes :: "jsstring option"

record generated_image =
  gi_image :: "image_data option"

record images_response =
  generatedImages :: "generated_image list option"

record content_response =
  response_text :: "jsstring option"
  candidates :: "part list list"

text \<open>
  The host is everything outside the module: the environment variable, the remote
  operations of the SDK (they resolve with a response or reject with a thrown value)
  and the messages the engine puts into the errors it throws itself, which ECMA-262
  leaves to the implementation.
\<close>

record host =
  API_KEY :: "jsstring option"
  generateImages :: "client \<Rightarrow> images_request \<Rightarrow> thrown + images_response"
  generateContent :: "client \<Rightarrow> content_request \<Rightarrow> thrown + content_response"
  syntax_error_message :: "jsstring \<Rightarrow> jsstring"
  type_error_message :: "jsstring \<Rightarrow> jsstring"

text \<open>
  The state of the module is the variable \<open>aiInstance\<close>; \<open>remote_calls\<close> records the
  remote calls made so far. The output of \<open>console.error\<close> is not part of the state.
\<close>

datatype remote_call =
    ImagesCall client images_request
  | ContentCall client content_request

record world =
  aiInstance :: "client option"
  remote_calls :: "remote_call list"

definition JSON_parse :: "host \<Rightarrow> jsstring \<Rightarrow> thrown + json" where
  "JSON_parse h s =
     (case parse_json s of
        None \<Rightarrow> Inl (ErrorObject (js ''SyntaxError'') (syntax_error_message h s))
      | Some v \<Rightarrow> Inr v)"

text \<open>
  Reading a property: \<open>None\<close> is \<open>undefined\<close>. \<open>get_prop v k\<close> is \<open>v.k\<close> for a value
  \<open>v\<close> other than \<open>null\<close> and a name \<open>k\<close> that the built-in prototypes, arrays and
  strings do not define (the service reads \<open>error\<close>, \<open>details\<close>, \<open>reason\<close> and
  \<open>palette\<close>). \<open>read_prop\<close> is the plain access, a TypeError on \<open>null\<close> and
  \<open>undefined\<close>; \<open>opt_prop\<close> is the optional chaining \<open>v?.k\<close>.
\<close>

fun get_prop :: "json \<Rightarrow> jsstring \<Rightarrow> json option" where
  "get_prop (JObject ms) k = map_of ms k"
| "get_prop _ k = None"

fun read_prop :: "host \<Rightarrow> json option \<Rightarrow> jsstring \<Rightarrow> thrown + json option" where
  "read_prop h None k = Inl (ErrorObject (js ''TypeError'') (type_error_message h k))"
| "read_prop h (Some JNull) k = Inl (ErrorObject (js ''TypeError'') (type_error_message h k))"
| "read_prop h (Some v) k = Inr (get_prop v k)"

fun opt_prop :: "json option \<Rightarrow> jsstring \<Rightarrow> json option" where
  "opt_prop None k = None"
| "opt_prop (Some JNull) k = None"
| "opt_prop (Some v) k = get_prop v k"

text \<open>\<open>Array.prototype.some\<close>: the first element that satisfies the callback ends the
  scan, and so does a callback that throws.\<close>

fun array_some :: "('a \<Rightarrow> thrown + bool) \<Rightarrow> 'a list \<Rightarrow> thrown + bool" where
  "array_some f [] = Inr False"
| "array_some f (d # ds) =
     (case f d of
        Inl e \<Rightarrow> Inl e
      | Inr b \<Rightarrow> if b then Inr True else array_some f ds)"

section \<open>The service\<close>

definition config_prefix :: jsstring where
  "config_prefix = js ''Error de Configuraci'' @ [0xF3] @ js ''n''"

definition config_message :: jsstring where
  "config_message =
     js ''Error de Configuraci'' @ [0xF3] @
     js ''n: La API Key para el servicio de IA no ha sido configurada. '' @
     js ''El administrador del sitio debe a'' @ [0xF1] @
     js ''adirla en los ajustes de despliegue para que la aplicaci'' @ [0xF3] @
     js ''n funcione.''"

definition getAiInstance :: "host \<Rightarrow> world \<Rightarrow> (thrown + client) \<times> world" where
  "getAiInstance h w =
     (case aiInstance w of
        Some ai \<Rightarrow> (Inr ai, w)
      | None \<Rightarrow>
          (case API_KEY h of
             None \<Rightarrow> (Inl (new_Error config_message), w)
           | Some k \<Rightarrow>
               if k = [] then (Inl (new_Error config_message), w)
               else (Inr (GoogleGenAI k), w\<lparr>aiInstance := Some (GoogleGenAI k)\<rparr>)))"

text \<open>
  The callback of \<open>details.some\<close>, and the body of the \<open>try\<close> block of \<open>handleError\<close>:
  its result is the value \<open>isApiKeyError\<close> has when the block ends normally.
  \<open>details && Array.isArray(details)\<close> holds exactly when \<open>details\<close> is an array.
\<close>

definition reason_is_invalid :: "host \<Rightarrow> json \<Rightarrow> thrown + bool" where
  "reason_is_invalid h d =
     (case read_prop h (Some d) (js ''reason'') of
        Inl e \<Rightarrow> Inl e
      | Inr r \<Rightarrow> Inr (r = Some (JString (js ''API_KEY_INVALID''))))"

definition api_key_probe :: "host \<Rightarrow> jsstring \<Rightarrow> thrown + bool" where
  "api_key_probe h message =
     (case JSON_parse h message of
        Inl e \<Rightarrow> Inl e
      | Inr parsedError \<Rightarrow>
          (case opt_prop (opt_prop (Some parsedError) (js ''error'')) (js ''details'') of
             Some (JArray details) \<Rightarrow> array_some (reason_is_invalid h) details
           | _ \<Rightarrow> Inr False))"

definition isApiKeyError :: "host \<Rightarrow> jsstring \<Rightarrow> bool" where
  "isApiKeyError h message =
     (if str_includes message (js ''API key not valid'') \<or>
         str_includes message (js ''API_KEY_INVALID'')
      then True
      else (case api_key_probe h message of Inl e \<Rightarrow> False | Inr b \<Rightarrow> b))"

text \<open>
  \<open>handleError\<close> has the return type \<open>never\<close>: the model gives it a result of any type
  \<open>'a\<close>, and what it throws as \<open>Inl\<close>.
\<close>

definition handleError :: "host \<Rightarrow> thrown \<Rightarrow> jsstring \<Rightarrow> thrown + 'a" where
  "handleError h error ctx =
     (case error of
        ErrorObject n message \<Rightarrow>
          if startsWith message config_prefix then Inl error
          else if isApiKeyError h message then Inl (new_Error config_message)
          else Inl (new_Error (js ''Failed to '' @ ctx @ js ''. '' @ message))
      | NonError \<Rightarrow>
          Inl (new_Error (js ''An unknown error occurred while trying to '' @ ctx @ js ''.'')))"

subsection \<open>Requests\<close>

text \<open>
  \<open>fileToGenerativePart\<close>: a file is given by its MIME type and by the data URL that
  \<open>FileReader.readAsDataURL\<close> produces for it (the read is taken to succeed); the part
  carries piece 1 of the URL split at the commas.
\<close>

record image_file =
  file_type :: jsstring
  file_dataURL :: jsstring

fun split_on :: "code_unit \<Rightarrow> jsstring \<Rightarrow> jsstring list" where
  "split_on sep [] = [[]]"
| "split_on sep (c # cs) =
     (if c = sep then [] # split_on sep cs
      else (case split_on sep cs of
              [] \<Rightarrow> [[c]]
            | x # xs \<Rightarrow> (c # x) # xs))"

definition index1 :: "'a list \<Rightarrow> 'a option" where
  "index1 xs = (case xs of _ # x # _ \<Rightarrow> Some x | _ \<Rightarrow> None)"

definition fileToGenerativePart :: "image_file \<Rightarrow> part" where
  "fileToGenerativePart f =
     \<lparr>part_text = None,
      part_inlineData =
        Some \<lparr>blob_data = index1 (split_on 0x2C (file_dataURL f)), blob_mimeType = file_type f\<rparr>\<rparr>"

definition textPart :: "jsstring \<Rightarrow> part" where
  "textPart prompt = \<lparr>part_text = Some prompt, part_inlineData = None\<rparr>"

definition generateImage_request :: "jsstring \<Rightarrow> int option \<Rightarrow> images_request" where
  "generateImage_request prompt n =
     \<lparr>img_model = js ''imagen-4.0-generate-001'',
      img_prompt = prompt,
      img_config =
        \<lparr>numberOfImages = (case n of None \<Rightarrow> 1 | Some k \<Rightarrow> k),
         outputMimeType = js ''image/jpeg'',
         aspectRatio = js ''1:1''\<rparr>\<rparr>"

definition generateStructuredText_request :: "jsstring \<Rightarrow> schema \<Rightarrow> content_request" where
  "generateStructuredText_request prompt sch =
     \<lparr>gc_model = js ''gemini-2.5-flash'',
      gc_contents = Prompt prompt,
      gc_config =
        Some \<lparr>responseMimeType = Some (js ''application/json''),
              responseSchema = Some sch,
              responseModalities = None\<rparr>\<rparr>"

definition generateText_request :: "jsstring \<Rightarrow> content_request" where
  "generateText_request prompt =
     \<lparr>gc_model = js ''gemini-2.5-flash'', gc_contents = Prompt prompt, gc_config = None\<rparr>"

definition generateTextWithImage_request :: "jsstring \<Rightarrow> image_file \<Rightarrow> bool \<Rightarrow> content_request" where
  "generateTextWithImage_request prompt imageFile isJson =
     \<lparr>gc_model = js ''gemini-2.5-flash'',
      gc_contents = Parts [fileToGenerativePart imageFile, textPart prompt],
      gc_config =
        (if isJson
         then Some \<lparr>responseMimeType = Some (js ''application/json''),
                    responseSchema = None,
                    responseModalities = None\<rparr>
         else None)\<rparr>"

definition editImage_request :: "jsstring \<Rightarrow> image_file \<Rightarrow> content_request" where
  "editImage_request prompt imageFile =
     \<lparr>gc_model = js ''gemini-2.5-flash-image-preview'',
      gc_contents = Parts [fileToGenerativePart imageFile, textPart prompt],
      gc_config =
        Some \<lparr>responseMimeType = None,
              responseSchema = None,
              responseModalities = Some [IMAGE, TEXT]\<rparr>\<rparr>"

definition palette_prompt :: "jsstring \<Rightarrow> jsstring" where
  "palette_prompt theme =
     js ''Generate a color palette with 5 colors for the theme: '' @ theme @
     js ''. Provide creative names for each color.''"

definition palette_schema :: schema where
  "palette_schema =
     Schema OBJECT None
       [(js ''palette'',
         Schema ARRAY (Some (js ''An array of 5 color objects.'')) []
           (Some (Schema OBJECT None
              [(js ''name'',
                Schema STRING (Some (js ''The creative name of the color.'')) [] None []),
               (js ''hex'',
                Schema STRING (Some (js ''The hex code for the color (e.g., #RRGGBB).'')) []
                  None [])]
              None [js ''name'', js ''hex'']))
           [])]
       None [js ''palette'']"

text \<open>A remote call is recorded in the world, whether it resolves or rejects.\<close>

definition call_generateImages ::
  "host \<Rightarrow> client \<Rightarrow> images_request \<Rightarrow> world \<Rightarrow> (thrown + images_response) \<times> world" where
  "call_generateImages h ai req w =
     (generateImages h ai req, w\<lparr>remote_calls := remote_calls w @ [ImagesCall ai req]\<rparr>)"

definition call_generateContent ::
  "host \<Rightarrow> client \<Rightarrow> content_request \<Rightarrow> world \<Rightarrow> (thrown + content_response) \<times> world" where
  "call_generateContent h ai req w =
     (generateContent h ai req, w\<lparr>remote_calls := remote_calls w @ [ContentCall ai req]\<rparr>)"

subsection \<open>Operations\<close>

text \<open>
  Each exported operation is a \<open>try\<close> block, modelled by the function with the suffix
  \<open>_try\<close>, whose \<open>catch\<close> clause hands the thrown value to \<open>handleError\<close>. A promise
  that resolves is \<open>Inr\<close>, one that rejects is \<open>Inl\<close>.
\<close>

definition catch_with ::
  "host \<Rightarrow> jsstring \<Rightarrow> (thrown + 'a) \<times> world \<Rightarrow> (thrown + 'a) \<times> world" where
  "catch_with h ctx r =
     (case r of
        (Inl error, w) \<Rightarrow> (handleError h error ctx, w)
      | (Inr v, w) \<Rightarrow> (Inr v, w))"

text \<open>
  A string that may be \<open>undefined\<close> is truthy when it is present and not empty; where
  it is converted to a string (in a template literal, as the argument of
  \<open>JSON.parse\<close>), \<open>undefined\<close> reads as the text \<open>undefined\<close>.
\<close>

definition truthy_str :: "jsstring option \<Rightarrow> bool" where
  "truthy_str s = (case s of None \<Rightarrow> False | Some t \<Rightarrow> t \<noteq> [])"

definition template_str :: "jsstring option \<Rightarrow> jsstring" where
  "template_str s = (case s of None \<Rightarrow> js ''undefined'' | Some t \<Rightarrow> t)"

text \<open>
  \<open>Array.prototype.map\<close> with a callback that may throw: the first throw ends the
  map. The callback of \<open>generateImage\<close> reads \<open>img.image.imageBytes\<close>: a TypeError
  when the image is absent, the text \<open>undefined\<close> for absent bytes.
\<close>

fun array_map :: "('a \<Rightarrow> thrown + 'b) \<Rightarrow> 'a list \<Rightarrow> thrown + 'b list" where
  "array_map f [] = Inr []"
| "array_map f (x # xs) =
     (case f x of
        Inl e \<Rightarrow> Inl e
      | Inr y \<Rightarrow> (case array_map f xs of Inl e \<Rightarrow> Inl e | Inr ys \<Rightarrow> Inr (y # ys)))"

definition data_uri_jpeg :: "host \<Rightarrow> generated_image \<Rightarrow> thrown + jsstring" where
  "data_uri_jpeg h img =
     (case gi_image img of
        None \<Rightarrow> Inl (ErrorObject (js ''TypeError'') (type_error_message h (js ''imageBytes'')))
      | Some im \<Rightarrow> Inr (js ''data:image/jpeg;base64,'' @ template_str (imageBytes im)))"

definition generateImage_try ::
  "host \<Rightarrow> jsstring \<Rightarrow> int option \<Rightarrow> world \<Rightarrow> (thrown + jsstring list) \<times> world" where
  "generateImage_try h prompt n w =
     (case getAiInstance h w of
        (Inl e, w1) \<Rightarrow> (Inl e, w1)
      | (Inr ai, w1) \<Rightarrow>
          (case call_generateImages h ai (generateImage_request prompt n) w1 of
             (Inl e, w2) \<Rightarrow> (Inl e, w2)
           | (Inr response, w2) \<Rightarrow>
               (case generatedImages response of
                  None \<Rightarrow> (Inl (new_Error (js ''No images were generated.'')), w2)
                | Some imgs \<Rightarrow>
                    if length imgs > 0 then (array_map (data_uri_jpeg h) imgs, w2)
                    else (Inl (new_Error (js ''No images were generated.'')), w2))))"

definition generateImage ::
  "host \<Rightarrow> jsstring \<Rightarrow> int option \<Rightarrow> world \<Rightarrow> (thrown + jsstring list) \<times> world" where
  "generateImage h prompt n w =
     catch_with h (js ''generate image'') (generateImage_try h prompt n w)"

definition generateStructuredText_try ::
  "host \<Rightarrow> jsstring \<Rightarrow> schema \<Rightarrow> world \<Rightarrow> (thrown + json) \<times> world" where
  "generateStructuredText_try h prompt sch w =
     (case getAiInstance h w of
        (Inl e, w1) \<Rightarrow> (Inl e, w1)
      | (Inr ai, w1) \<Rightarrow>
          (case call_generateContent h ai (generateStructuredText_request prompt sch) w1 of
             (Inl e, w2) \<Rightarrow> (Inl e, w2)
           | (Inr response, w2) \<Rightarrow>
               (case response_text response of
                  None \<Rightarrow>
                    (Inl (ErrorObject (js ''TypeError'') (type_error_message h (js ''trim''))),
                     w2)
                | Some jsonString \<Rightarrow> (JSON_parse h (trim jsonString), w2))))"

definition generateStructuredText ::
  "host \<Rightarrow> jsstring \<Rightarrow> schema \<Rightarrow> world \<Rightarrow> (thrown + json) \<times> world" where
  "generateStructuredText h prompt sch w =
     catch_with h (js ''generate structured text'') (generateStructuredText_try h prompt sch w)"

definition generateText_try ::
  "host \<Rightarrow> jsstring \<Rightarrow> world \<Rightarrow> (thrown + jsstring option) \<times> world" where
  "generateText_try h prompt w =
     (case getAiInstance h w of
        (Inl e, w1) \<Rightarrow> (Inl e, w1)
      | (Inr ai, w1) \<Rightarrow>
          (case call_generateContent h ai (generateText_request prompt) w1 of
             (Inl e, w2) \<Rightarrow> (Inl e, w2)
           | (Inr response, w2) \<Rightarrow> (Inr (response_text response), w2)))"

definition generateText ::
  "host \<Rightarrow> jsstring \<Rightarrow> world \<Rightarrow> (thrown + jsstring option) \<times> world" where
  "generateText h prompt w =
     catch_with h (js ''generate text'') (generateText_try h prompt w)"

text \<open>
  \<open>generateTextWithImage\<close> returns one of three things: the value \<open>JSON.parse\<close> gives
  for the text of the response, the object \<open>{rawResponse: textResponse}\<close>, or the
  text of the response itself. The text may be \<open>undefined\<close>; \<open>JSON.parse\<close> then reads
  the text \<open>undefined\<close>, which is not JSON.
\<close>

record raw_response =
  rawResponse :: "jsstring option"

datatype text_with_image_result =
    ParsedJson json
  | Fallback raw_response
  | PlainText "jsstring option"

definition generateTextWithImage_try ::
  "host \<Rightarrow> jsstring \<Rightarrow> image_file \<Rightarrow> bool \<Rightarrow> world \<Rightarrow>
     (thrown + text_with_image_result) \<times> world" where
  "generateTextWithImage_try h prompt imageFile isJson w =
     (case getAiInstance h w of
        (Inl e, w1) \<Rightarrow> (Inl e, w1)
      | (Inr ai, w1) \<Rightarrow>
          (case call_generateContent h ai
                  (generateTextWithImage_request prompt imageFile isJson) w1 of
             (Inl e, w2) \<Rightarrow> (Inl e, w2)
           | (Inr response, w2) \<Rightarrow>
               (let textResponse = response_text response in
                if isJson then
                  (case JSON_parse h (template_str textResponse) of
                     Inr v \<Rightarrow> (Inr (ParsedJson v), w2)
                   | Inl e \<Rightarrow> (Inr (Fallback \<lparr>rawResponse = textResponse\<rparr>), w2))
                else (Inr (PlainText textResponse), w2))))"

definition generateTextWithImage ::
  "host \<Rightarrow> jsstring \<Rightarrow> image_file \<Rightarrow> bool \<Rightarrow> world \<Rightarrow>
     (thrown + text_with_image_result) \<times> world" where
  "generateTextWithImage h prompt imageFile isJson w =
     catch_with h (js ''generate text with image'')
       (generateTextWithImage_try h prompt imageFile isJson w)"

text \<open>
  The loop of \<open>editImage\<close> over the parts. An absent \<open>data\<close> reads \<open>undefined\<close> in the
  template literal.
\<close>

definition data_uri :: "blob \<Rightarrow> jsstring" where
  "data_uri b =
     js ''data:'' @ blob_mimeType b @ js '';base64,'' @ template_str (blob_data b)"

fun scan_parts ::
  "part list \<Rightarrow> jsstring option \<times> jsstring option \<Rightarrow> jsstring option \<times> jsstring option" where
  "scan_parts [] (resultText, resultImage) = (resultText, resultImage)"
| "scan_parts (p # ps) (resultText, resultImage) =
     (if truthy_str (part_text p) then scan_parts ps (part_text p, resultImage)
      else (case part_inlineData p of
              Some b \<Rightarrow> scan_parts ps (resultText, Some (data_uri b))
            | None \<Rightarrow> scan_parts ps (resultText, resultImage)))"

record edit_result =
  result_text :: "jsstring option"
  result_image :: "jsstring option"

definition editImage_try ::
  "host \<Rightarrow> jsstring \<Rightarrow> image_file \<Rightarrow> world \<Rightarrow> (thrown + edit_result) \<times> world" where
  "editImage_try h prompt imageFile w =
     (case getAiInstance h w of
        (Inl e, w1) \<Rightarrow> (Inl e, w1)
      | (Inr ai, w1) \<Rightarrow>
          (case call_generateContent h ai (editImage_request prompt imageFile) w1 of
             (Inl e, w2) \<Rightarrow> (Inl e, w2)
           | (Inr response, w2) \<Rightarrow>
               (case candidates response of
                  [] \<Rightarrow>
                    (Inl (ErrorObject (js ''TypeError'') (type_error_message h (js ''content''))),
                     w2)
                | parts # _ \<Rightarrow>
                    (case scan_parts parts (None, None) of
                       (resultText, resultImage) \<Rightarrow>
                         if \<not> truthy_str resultImage
                         then (Inl (new_Error (js ''The AI did not return an edited image.'')),
                               w2)
                         else (Inr \<lparr>result_text = resultText, result_image = resultImage\<rparr>,
                               w2)))))"

definition editImage ::
  "host \<Rightarrow> jsstring \<Rightarrow> image_file \<Rightarrow> world \<Rightarrow> (thrown + edit_result) \<times> world" where
  "editImage h prompt imageFile w =
     catch_with h (js ''edit image'') (editImage_try h prompt imageFile w)"

text \<open>
  \<open>generateColorPalette\<close> awaits \<open>generateStructuredText\<close> inside its own \<open>try\<close>
  block. \<open>result.palette && Array.isArray(result.palette)\<close> holds exactly when the
  property is an array, and the array is returned as it is.
\<close>

definition generateColorPalette_try ::
  "host \<Rightarrow> jsstring \<Rightarrow> world \<Rightarrow> (thrown + json) \<times> world" where
  "generateColorPalette_try h theme w =
     (case generateStructuredText h (palette_prompt theme) palette_schema w of
        (Inl e, w1) \<Rightarrow> (Inl e, w1)
      | (Inr result, w1) \<Rightarrow>
          (case read_prop h (Some result) (js ''palette'') of
             Inl e \<Rightarrow> (Inl e, w1)
           | Inr (Some (JArray palette)) \<Rightarrow> (Inr (JArray palette), w1)
           | Inr _ \<Rightarrow> (Inl (new_Error (js ''Invalid response format from API.'')), w1)))"

definition generateColorPalette ::
  "host \<Rightarrow> jsstring \<Rightarrow> world \<Rightarrow> (thrown + json) \<times> world" where
  "generateColorPalette h theme w =
     catch_with h (js ''generate color palette'') (generateColorPalette_try h theme w)"

section \<open>Notions used in the statements\<close>

subsection \<open>The error classifier\<close>

text \<open>
  The condition of the specification on a structured message: it parses as JSON, the
  value at \<open>error.details\<close> is an array, and some entry of the array has the property
  \<open>reason\<close> equal to the string \<open>API_KEY_INVALID\<close>.
\<close>

definition has_invalid_reason :: "json \<Rightarrow> bool" where
  "has_invalid_reason d \<longleftrightarrow> get_prop d (js ''reason'') = Some (JString (js ''API_KEY_INVALID''))"

definition spec_key_envelope :: "jsstring \<Rightarrow> bool" where
  "spec_key_envelope message =
     (case parse_json message of
        None \<Rightarrow> False
      | Some v \<Rightarrow>
          (case opt_prop (opt_prop (Some v) (js ''error'')) (js ''details'') of
             Some (JArray details) \<Rightarrow> list_ex has_invalid_reason details
           | _ \<Rightarrow> False))"

text \<open>The messages whose \<open>error.details\<close> array, if there is one, has no \<open>null\<close> entry.\<close>

definition no_null_detail :: "jsstring \<Rightarrow> bool" where
  "no_null_detail message =
     (case parse_json message of
        None \<Rightarrow> True
      | Some v \<Rightarrow>
          (case opt_prop (opt_prop (Some v) (js ''error'')) (js ''details'') of
             Some (JArray details) \<Rightarrow> JNull \<notin> set details
           | _ \<Rightarrow> True))"

text \<open>
  \<open>handleError\<close> with the \<open>else\<close> branch of the first test removed: \<open>isApiKeyError\<close>
  is decided by the two substring tests alone.
\<close>

definition handleError_without_probe :: "thrown \<Rightarrow> jsstring \<Rightarrow> thrown + 'a" where
  "handleError_without_probe error ctx =
     (case error of
        ErrorObject n message \<Rightarrow>
          if startsWith message config_prefix then Inl error
          else if str_includes message (js ''API key not valid'') \<or>
                  str_includes message (js ''API_KEY_INVALID'')
            then Inl (new_Error config_message)
            else Inl (new_Error (js ''Failed to '' @ ctx @ js ''. '' @ message))
      | NonError \<Rightarrow>
          Inl (new_Error (js ''An unknown error occurred while trying to '' @ ctx @ js ''.'')))"

subsection \<open>The parts of an edited image\<close>

text \<open>
  The two kinds of part the scan of \<open>editImage\<close> tells apart: a part with a text that
  is present and not empty, and a part without such a text that has inline data.
  \<open>last_text\<close> and \<open>last_image\<close> are the text of the last part of the first kind
  and the data URI of the last part of the second kind.
\<close>

definition is_text_part :: "part \<Rightarrow> bool" where
  "is_text_part p = truthy_str (part_text p)"

definition is_image_part :: "part \<Rightarrow> bool" where
  "is_image_part p = (\<not> truthy_str (part_text p) \<and> part_inlineData p \<noteq> None)"

definition last_text :: "part list \<Rightarrow> jsstring option" where
  "last_text ps =
     (case filter is_text_part ps of [] \<Rightarrow> None | q # qs \<Rightarrow> part_text (last (q # qs)))"

definition last_image :: "part list \<Rightarrow> jsstring option" where
  "last_image ps =
     (case filter is_image_part ps of
        [] \<Rightarrow> None
      | q # qs \<Rightarrow> map_option data_uri (part_inlineData (last (q # qs))))"

definition or_else :: "'a option \<Rightarrow> 'a option \<Rightarrow> 'a option" where
  "or_else x y = (case x of None \<Rightarrow> y | Some v \<Rightarrow> Some v)"

text \<open>
  The reading of the specification: a text part is a part that has a text field,
  whatever the text.
\<close>

definition spec_is_text_part :: "part \<Rightarrow> bool" where
  "spec_is_text_part p \<longleftrightarrow> part_text p \<noteq> None"

definition spec_last_text :: "part list \<Rightarrow> jsstring option" where
  "spec_last_text ps =
     (case filter spec_is_text_part ps of
        [] \<Rightarrow> None
      | q # qs \<Rightarrow> part_text (last (q # qs)))"

subsection \<open>The strings of a JSON value\<close>

text \<open>
  The string values that occur in a JSON value, in a configuration of the automaton
  and in a token.
\<close>

fun jstrings :: "json \<Rightarrow> jsstring set" where
  "jstrings (JString s) = {s}"
| "jstrings (JArray vs) = (\<Union>v \<in> set vs. jstrings v)"
| "jstrings (JObject ms) = (\<Union>m \<in> set ms. jstrings (snd m))"
| "jstrings _ = {}"

definition members_strings :: "(jsstring \<times> json) list \<Rightarrow> jsstring set" where
  "members_strings ms = (\<Union>m \<in> set ms. jstrings (snd m))"

fun frame_strings :: "frame \<Rightarrow> jsstring set" where
  "frame_strings (InArr es) = (\<Union>v \<in> set es. jstrings v)"
| "frame_strings (InObj ms k) = members_strings ms"

fun pstate_strings :: "pstate \<Rightarrow> jsstring set" where
  "pstate_strings (PDone v) = jstrings v"
| "pstate_strings (PKey ms) = members_strings ms"
| "pstate_strings (PColon ms k) = members_strings ms"
| "pstate_strings _ = {}"

definition frames_strings :: "frame list \<Rightarrow> jsstring set" where
  "frames_strings st = (\<Union>f \<in> set st. frame_strings f)"

fun conf_strings :: "pstate \<times> frame list \<Rightarrow> jsstring set" where
  "conf_strings (s, st) = pstate_strings s \<union> frames_strings st"

fun token_strings :: "token \<Rightarrow> jsstring set" where
  "token_strings (TString s) = {s}"
| "token_strings _ = {}"

section \<open>Hosts and inputs for the examples\<close>

text \<open>
  A host whose remote operations answer every request in the same way; a world in
  which no client exists yet and the world after the client for the key \<open>k\<close> has been
  created; generated images with bytes, without bytes and without image.
\<close>

definition test_host ::
  "jsstring option \<Rightarrow> thrown + images_response \<Rightarrow> thrown + content_response \<Rightarrow> host" where
  "test_host key ir cr =
     \<lparr>API_KEY = key,
      generateImages = (\<lambda>ai req. ir),
      generateContent = (\<lambda>ai req. cr),
      syntax_error_message = (\<lambda>s. js ''Unexpected token''),
      type_error_message = (\<lambda>k. js ''Cannot read properties'')\<rparr>"

definition offline_host :: "jsstring option \<Rightarrow> host" where
  "offline_host key = test_host key (Inl NonError) (Inl NonError)"

definition images_host :: "generated_image list option \<Rightarrow> host" where
  "images_host imgs =
     test_host (Some (js ''k'')) (Inr \<lparr>generatedImages = imgs\<rparr>) (Inl NonError)"

definition answer_host :: "jsstring option \<Rightarrow> host" where
  "answer_host t =
     test_host (Some (js ''k'')) (Inl NonError) (Inr \<lparr>response_text = t, candidates = []\<rparr>)"

definition text_host :: "jsstring \<Rightarrow> host" where
  "text_host t = answer_host (Some t)"




definition parts_host :: "part list \<Rightarrow> host" where
  "parts_host ps =
     test_host (Some (js ''k'')) (Inl NonError) (Inr \<lparr>response_text = None, candidates = [ps]\<rparr>)"

definition fresh_world :: world where
  "fresh_world = \<lparr>aiInstance = None, remote_calls = []\<rparr>"

definition keyed_world :: world where
  "keyed_world = \<lparr>aiInstance = Some (GoogleGenAI (js ''k'')), remote_calls = []\<rparr>"

definition png_file :: image_file where
  "png_file = \<lparr>file_type = js ''image/png'', file_dataURL = js ''data:image/png;base64,AAAA''\<rparr>"

definition text_part :: "jsstring \<Rightarrow> part" where
  "text_part t = \<lparr>part_text = Some t, part_inlineData = None\<rparr>"

definition image_part :: "jsstring \<Rightarrow> part" where
  "image_part d =
     \<lparr>part_text = None,
      part_inlineData = Some \<lparr>blob_data = Some d, blob_mimeType = js ''image/png''\<rparr>\<rparr>"

definition captioned_image_part :: "jsstring \<Rightarrow> jsstring \<Rightarrow> part" where
  "captioned_image_part t d =
     \<lparr>part_text = Some t,
      part_inlineData = Some \<lparr>blob_data = Some d, blob_mimeType = js ''image/png''\<rparr>\<rparr>"

text \<open>
  Three error messages: the envelope of the specification, the same envelope with the
  underscore of the reason written as a Unicode escape (reverse solidus, \<open>u005f\<close>),
  and the latter with a \<open>null\<close> entry in front.
\<close>

definition plain_key_message :: jsstring where
  \<open>plain_key_message = js ''{"error":{"details":[{"reason":"API_KEY_INVALID"}]}}''\<close>

definition escaped_key_message :: jsstring where
  \<open>escaped_key_message =
     js ''{"error":{"details":[{"reason":"API_KEY'' @ [0x5C] @ js ''u005fINVALID"}]}}''\<close>

definition null_entry_message :: jsstring where
  \<open>null_entry_message =
     js ''{"error":{"details":[null,{"reason":"API_KEY'' @ [0x5C] @ js ''u005fINVALID"}]}}''\<close>

definition dusk_palette :: jsstring where
  \<open>dusk_palette = js ''{"palette":[{"name":"Dusk","hex":"#2B2D42"}]}''\<close>

section \<open>Evaluation lemmas\<close>

lemmas lex_defs = is_json_space_def is_digit_def lex_number_def lex_int_def lex_frac_def
  lex_exp_def lex_digits_def hex4_def hex_val_def escape_val_def

lemmas eval_defs = handleError_def new_Error_def config_prefix_def isApiKeyError_def
  api_key_probe_def JSON_parse_def parse_json_def js_def lex_defs

lemmas part_defs = text_part_def image_part_def captioned_image_part_def

lemma config_message_prefix: "startsWith config_message config_prefix"
  by (simp add: config_message_def config_prefix_def js_def)

lemma handleError_config_message:
  "handleError h (new_Error config_message) ctx = Inl (new_Error config_message)"
  by (simp add: handleError_def new_Error_def config_message_prefix)

lemma catch_with_config:
  "catch_with h ctx (Inl (new_Error config_message), w) = (Inl (new_Error config_message), w)"
  by (simp add: catch_with_def handleError_config_message)



lemma no_edited_image_generic:
  "handleError h (new_Error (js ''The AI did not return an edited image.'')) (js ''edit image'')
     = Inl (new_Error (js ''Failed to edit image. The AI did not return an edited image.''))"
  by (simp add: eval_defs)

lemma getAiInstance_no_key:
  assumes "API_KEY h = None \<or> API_KEY h = Some []" and "aiInstance w = None"
  shows "getAiInstance h w = (Inl (new_Error config_message), w)"
  using assms by (auto simp: getAiInstance_def)

lemma test_host_sel [simp]:
  "generateImages (test_host key ir cr) ai ireq = ir"
  "generateContent (test_host key ir cr) ai creq = cr"
  "syntax_error_message (test_host key ir cr) s = js ''Unexpected token''"
  "type_error_message (test_host key ir cr) k = js ''Cannot read properties''"
  by (simp_all add: test_host_def)

lemma getAiInstance_fresh:
  "getAiInstance (test_host (Some (js ''k'')) ir cr) fresh_world
     = (Inr (GoogleGenAI (js ''k'')), keyed_world)"
  by (simp add: getAiInstance_def test_host_def fresh_world_def keyed_world_def js_def)

lemma answer_host_sel [simp]:
  "syntax_error_message (answer_host a) s = js ''Unexpected token''"
  "type_error_message (answer_host a) k = js ''Cannot read properties''"
  by (simp_all add: answer_host_def)

lemma getAiInstance_answer_host:
  "getAiInstance (answer_host a) fresh_world = (Inr (GoogleGenAI (js ''k'')), keyed_world)"
  by (simp add: answer_host_def getAiInstance_fresh)

lemma generateContent_answer_host:
  "generateContent (answer_host a) ai req = Inr \<lparr>response_text = a, candidates = []\<rparr>"
  by (simp add: answer_host_def)

lemma text_host_syntax [simp]:
  "syntax_error_message (text_host t) s = js ''Unexpected token''"
  by (simp add: text_host_def)

lemma getAiInstance_text_host:
  "getAiInstance (text_host t) fresh_world = (Inr (GoogleGenAI (js ''k'')), keyed_world)"
  by (simp add: text_host_def getAiInstance_answer_host)

lemma generateContent_text_host:
  "generateContent (text_host t) ai req = Inr \<lparr>response_text = Some t, candidates = []\<rparr>"
  by (simp add: text_host_def generateContent_answer_host)


lemma images_host_sel [simp]:
  "type_error_message (images_host imgs) k = js ''Cannot read properties''"
  by (simp add: images_host_def)


lemma generateStructuredText_text_host:
  "generateStructuredText (text_host t) prompt sch fresh_world =
     (case parse_json (trim t) of
        Some v \<Rightarrow> Inr v
      | None \<Rightarrow> handleError (text_host t)
                 (ErrorObject (js ''SyntaxError'') (js ''Unexpected token''))
                 (js ''generate structured text''),
      keyed_world\<lparr>remote_calls := [ContentCall (GoogleGenAI (js ''k''))
                     (generateStructuredText_request prompt sch)]\<rparr>)"
  by (simp add: generateStructuredText_def generateStructuredText_try_def
      getAiInstance_text_host call_generateContent_def generateContent_text_host
      catch_with_def JSON_parse_def keyed_world_def split: option.splits)

lemma parse_plain_key:
  "parse_json plain_key_message =
     Some (JObject [(js ''error'', JObject [(js ''details'',
       JArray [JObject [(js ''reason'', JString (js ''API_KEY_INVALID''))]])])])"
  by (simp add: plain_key_message_def parse_json_def js_def lex_defs)

lemma parse_escaped_key:
  "parse_json escaped_key_message =
     Some (JObject [(js ''error'', JObject [(js ''details'',
       JArray [JObject [(js ''reason'', JString (js ''API_KEY_INVALID''))]])])])"
  by (simp add: escaped_key_message_def parse_json_def js_def lex_defs)

lemma parse_null_entry:
  "parse_json null_entry_message =
     Some (JObject [(js ''error'', JObject [(js ''details'',
       JArray [JNull, JObject [(js ''reason'', JString (js ''API_KEY_INVALID''))]])])])"
  by (simp add: null_entry_message_def parse_json_def js_def lex_defs)

section \<open>Strings and substrings\<close>

lemma startsWith_prefix: "startsWith s p \<longleftrightarrow> prefix p s"
  by (induction s p rule: startsWith.induct) auto

lemma str_includes_sublist: "str_includes s p \<longleftrightarrow> sublist p s"
  by (induction s) (auto simp: startsWith_prefix sublist_Cons_right)

lemma trim_ends:
  "trim s = [] \<or> (\<not> is_trim_space (hd (trim s)) \<and> \<not> is_trim_space (last (trim s)))"
proof (cases "trim s = []")
  case True
  then show ?thesis by simp
next
  case False
  let ?d = "dropWhile is_trim_space s"
  let ?r = "dropWhile is_trim_space (rev ?d)"
  from False have r: "?r \<noteq> []" by (simp add: trim_def)
  then have "\<not> is_trim_space (hd ?r)" by (rule hd_dropWhile)
  with r have l: "\<not> is_trim_space (last (trim s))"
    by (simp add: trim_def last_rev)
  have d: "?d \<noteq> []"
  proof
    assume "?d = []"
    then have "?r = []" by (simp only: rev.simps dropWhile.simps)
    with r show False by contradiction
  qed
  then have hd: "\<not> is_trim_space (hd ?d)" by (rule hd_dropWhile)
  have "rev ?d = takeWhile is_trim_space (rev ?d) @ ?r" by simp
  then have "last (rev ?d) = last ?r" using r by (metis last_appendR)
  with r d have "hd (trim s) = hd ?d"
    by (simp add: trim_def hd_rev last_rev)
  with hd l show ?thesis by simp
qed

section \<open>The strings of a parsed message\<close>

text \<open>
  Every string value of a JSON value parsed from a text without reverse solidus occurs
  in the text as it is: only an escape sequence can decode to something else.
\<close>

lemma set_set_prop: "set (set_prop ms k v) \<subseteq> insert (k, v) (set ms)"
  by (induction ms) (auto split: if_splits)

lemma members_strings_set_prop:
  "members_strings (set_prop ms k v) \<subseteq> members_strings ms \<union> jstrings v"
  using set_set_prop [of ms k v] by (fastforce simp: members_strings_def)

lemma members_strings_Nil [simp]: "members_strings [] = {}"
  by (simp add: members_strings_def)

lemma frames_strings_simps [simp]:
  "frames_strings [] = {}"
  "frames_strings (f # st) = frame_strings f \<union> frames_strings st"
  by (simp_all add: frames_strings_def)

lemma begin_value_strings:
  "begin_value t st = Some c \<Longrightarrow> conf_strings c \<subseteq> token_strings t \<union> frames_strings st"
  by (cases t) auto

lemma pstep_strings:
  "pstep c t = Some c' \<Longrightarrow> conf_strings c' \<subseteq> conf_strings c \<union> token_strings t"
proof (induction c t rule: pstep.induct)
  case (10 v ms k st)
  then show ?case
    using members_strings_set_prop [of ms k v] by auto
next
  case (11 v ms k st)
  then show ?case
    using members_strings_set_prop [of ms k v]
    by (auto simp: members_strings_def [symmetric])
qed (auto dest!: begin_value_strings)

lemma prun_strings:
  "prun c ts = Some v \<Longrightarrow> jstrings v \<subseteq> conf_strings c \<union> (\<Union>t \<in> set ts. token_strings t)"
proof (induction ts arbitrary: c)
  case Nil
  obtain s st where c: "c = (s, st)" by (cases c)
  with Nil show ?case
    by (cases s; cases st) auto
next
  case (Cons t ts)
  then obtain c' where c': "pstep c t = Some c'" "prun c' ts = Some v"
    by (auto split: option.splits)
  from Cons.IH [OF c'(2)] pstep_strings [OF c'(1)] show ?case
    by auto
qed

lemma lex_string_plain:
  "0x5C \<notin> set cs \<Longrightarrow> lex_string cs = Some (s, r) \<Longrightarrow> cs = s @ 0x22 # r"
proof (induction cs arbitrary: s)
  case Nil
  then show ?case by simp
next
  case (Cons c cs)
  show ?case
  proof (cases "c = 0x22")
    case True
    with Cons.prems show ?thesis by simp
  next
    case False
    with Cons.prems obtain s' where "lex_string cs = Some (s', r)" "s = c # s'"
      by (auto split: if_splits)
    with Cons.IH [of s'] Cons.prems(1) show ?thesis by simp
  qed
qed

lemma lex_digits_suffix: "lex_digits cs = Some (s, r) \<Longrightarrow> suffix r cs"
  by (auto simp: lex_digits_def suffix_dropWhile split: if_splits)

lemma lex_int_suffix: "lex_int cs = Some (s, r) \<Longrightarrow> suffix r cs"
  by (auto simp: lex_int_def suffix_Cons split: list.splits if_splits dest: lex_digits_suffix)

lemma lex_frac_suffix: "lex_frac cs = Some (s, r) \<Longrightarrow> suffix r cs"
  by (auto simp: lex_frac_def suffix_Cons split: list.splits if_splits dest: lex_digits_suffix)

lemma lex_exp_suffix: "lex_exp cs = Some (s, r) \<Longrightarrow> suffix r cs"
  by (auto simp: lex_exp_def suffix_Cons split: list.splits if_splits dest: lex_digits_suffix)

lemma lex_number_suffix: "lex_number cs = Some (s, r) \<Longrightarrow> suffix r cs"
proof -
  assume a: "lex_number cs = Some (s, r)"
  obtain sign r0 where sr: "(case cs of [] \<Rightarrow> ([], cs)
      | c # r \<Rightarrow> if c = 0x2D then ([c], r) else ([], cs)) = (sign, r0)"
    by (cases "(case cs of [] \<Rightarrow> ([]::jsstring, cs)
      | c # r \<Rightarrow> if c = 0x2D then ([c], r) else ([], cs))") auto
  then have l0: "suffix r0 cs"
    by (auto simp: suffix_Cons split: list.splits if_splits)
  from a sr obtain i r1 f r2 e where
    "lex_int r0 = Some (i, r1)" "lex_frac r1 = Some (f, r2)" "lex_exp r2 = Some (e, r)"
    by (auto simp: lex_number_def split: option.splits)
  then have "suffix r1 r0" "suffix r2 r1" "suffix r r2"
    by (auto dest: lex_int_suffix lex_frac_suffix lex_exp_suffix)
  with l0 show ?thesis by (meson suffix_order.trans)
qed

lemma lex_number_suffix_tl: "lex_number (c # cs) = Some (n, r) \<Longrightarrow> suffix r cs"
  using lex_number_suffix [of "c # cs" n r] lex_number_shorter [of "c # cs" n r]
  by (auto simp: suffix_Cons)

lemma map_option_Cons_Some:
  "map_option ((#) t) x = Some ts \<longleftrightarrow> (\<exists>ts'. x = Some ts' \<and> ts = t # ts')"
  by (cases x) auto

lemma tokenize_Cons:
  assumes "tokenize (c # cs) = Some ts"
  shows "(\<exists>r. suffix r cs \<and> tokenize r = Some ts) \<or>
         (\<exists>t r ts'. suffix r cs \<and> tokenize r = Some ts' \<and> ts = t # ts' \<and>
            token_strings t = {}) \<or>
         (\<exists>s r ts'. lex_string cs = Some (s, r) \<and> tokenize r = Some ts' \<and>
            ts = TString s # ts')"
proof -
  have other: ?thesis
    if "suffix r cs" "map_option ((#) t) (tokenize r) = Some ts" "token_strings t = {}"
    for r t
    using that by (auto simp: map_option_Cons_Some)
  have d: "suffix (drop k cs) cs" for k
    by (rule suffix_drop)
  have n: "suffix r cs" if "lex_number (c # cs) = Some (x, r)" for x r
    using that by (rule lex_number_suffix_tl)
  consider (space) "is_json_space c"
    | (punct) "\<not> is_json_space c"
        "c = 0x7B \<or> c = 0x7D \<or> c = 0x5B \<or> c = 0x5D \<or> c = 0x3A \<or> c = 0x2C"
    | (quote) "\<not> is_json_space c" "c = 0x22"
    | (num) "\<not> is_json_space c" "c \<noteq> 0x7B" "c \<noteq> 0x7D" "c \<noteq> 0x5B" "c \<noteq> 0x5D"
        "c \<noteq> 0x3A" "c \<noteq> 0x2C" "c \<noteq> 0x22" "c = 0x2D \<or> is_digit c"
    | (lit) "\<not> is_json_space c" "c \<noteq> 0x7B" "c \<noteq> 0x7D" "c \<noteq> 0x5B" "c \<noteq> 0x5D"
        "c \<noteq> 0x3A" "c \<noteq> 0x2C" "c \<noteq> 0x22" "\<not> (c = 0x2D \<or> is_digit c)"
    by blast
  then show ?thesis
  proof cases
    case space
    with assms have "tokenize cs = Some ts" by simp
    then show ?thesis by blast
  next
    case punct
    then obtain t where "map_option ((#) t) (tokenize cs) = Some ts" "token_strings t = {}"
      using assms by (auto split: if_splits)
    with other [of cs t] show ?thesis by simp
  next
    case quote
    with assms show ?thesis
      by (auto simp: map_option_Cons_Some split: option.splits)
  next
    case num
    with assms obtain x r where "lex_number (c # cs) = Some (x, r)"
      "map_option ((#) (TNumber x)) (tokenize r) = Some ts"
      by (auto split: option.splits)
    with other [of r "TNumber x"] n show ?thesis by simp
  next
    case lit
    with assms obtain t k where
      "map_option ((#) t) (tokenize (drop k cs)) = Some ts" "token_strings t = {}"
      by (auto split: if_splits)
    with other [of "drop k cs" t] d show ?thesis by simp
  qed
qed

lemma tokenize_strings:
  "0x5C \<notin> set cs \<Longrightarrow> tokenize cs = Some ts \<Longrightarrow> s \<in> (\<Union>t \<in> set ts. token_strings t)
     \<Longrightarrow> sublist s cs"
proof (induction cs arbitrary: ts rule: length_induct)
  case (1 cs)
  show ?case
  proof (cases cs)
    case Nil
    with 1 show ?thesis by simp
  next
    case (Cons c cs')
    note IH = 1(1) [rule_format]
    have rec: "sublist s cs"
      if "suffix r cs'" "tokenize r = Some ts'" "s \<in> (\<Union>t \<in> set ts'. token_strings t)"
      for r ts'
    proof -
      from that(1) have sc: "suffix r cs"
        using Cons by (simp add: suffix_Cons)
      from that(1) have "length r \<le> length cs'"
        by (rule suffix_length_le)
      then have "length r < length cs"
        using Cons by simp
      moreover from sc have "set r \<subseteq> set cs"
        by (rule set_mono_suffix)
      moreover note sc
      ultimately have "length r < length cs" "0x5C \<notin> set r" "suffix r cs"
        using 1(2) by auto
      with IH [of r ts'] that have "sublist s r" by blast
      then obtain a b where "r = a @ s @ b" by (auto simp: sublist_def)
      moreover from \<open>suffix r cs\<close> obtain pre where "cs = pre @ r" by (auto simp: suffix_def)
      ultimately have "cs = (pre @ a) @ s @ b" by simp
      then show ?thesis by (metis sublist_appendI)
    qed
    from 1(3) Cons have "tokenize (c # cs') = Some ts" by simp
    from tokenize_Cons [OF this] consider
        (skip) r where "suffix r cs'" "tokenize r = Some ts"
      | (other) t r ts' where "suffix r cs'" "tokenize r = Some ts'" "ts = t # ts'"
          "token_strings t = {}"
      | (str) x r ts' where "lex_string cs' = Some (x, r)" "tokenize r = Some ts'"
          "ts = TString x # ts'"
      by blast
    then show ?thesis
    proof cases
      case skip
      with rec 1(4) show ?thesis by blast
    next
      case other
      with rec [of r ts'] 1(4) show ?thesis by auto
    next
      case str
      from 1(2) Cons have nb: "0x5C \<notin> set cs'" by simp
      from lex_string_plain [OF nb str(1)] have cs': "cs' = x @ 0x22 # r" .
      show ?thesis
      proof (cases "s = x")
        case True
        have "cs = [c] @ x @ (0x22 # r)" using Cons cs' by simp
        then show ?thesis unfolding True by (metis sublist_appendI)
      next
        case False
        with 1(4) str(3) have "s \<in> (\<Union>t \<in> set ts'. token_strings t)" by auto
        moreover have "cs' = (x @ [0x22]) @ r" unfolding cs' by simp
        then have "suffix r cs'" by (rule suffixI)
        ultimately show ?thesis using rec str(2) by blast
      qed
    qed
  qed
qed

lemma parse_json_plain_strings:
  assumes "0x5C \<notin> set cs" and "parse_json cs = Some v" and "s \<in> jstrings v"
  shows "sublist s cs"
proof -
  from assms(2) obtain ts where ts: "tokenize cs = Some ts" "prun (PValue, []) ts = Some v"
    by (auto simp: parse_json_def split: option.splits)
  from prun_strings [OF ts(2)] assms(3) have "s \<in> (\<Union>t \<in> set ts. token_strings t)"
    by auto
  with tokenize_strings [OF assms(1) ts(1)] show ?thesis by blast
qed

lemma get_prop_strings: "get_prop v k = Some v' \<Longrightarrow> jstrings v' \<subseteq> jstrings v"
  by (cases v) (auto dest!: map_of_SomeD)

lemma opt_prop_strings:
  assumes "opt_prop x k = Some v'"
  shows "\<exists>v. x = Some v \<and> jstrings v' \<subseteq> jstrings v"
proof (cases x)
  case None
  with assms show ?thesis by simp
next
  case (Some v)
  with assms have "get_prop v k = Some v'"
    by (cases v) auto
  with Some show ?thesis
    by (auto dest: get_prop_strings)
qed

lemma spec_key_envelope_strings:
  assumes "spec_key_envelope message"
  shows "\<exists>v. parse_json message = Some v \<and> js ''API_KEY_INVALID'' \<in> jstrings v"
proof -
  from assms obtain v ds d where v: "parse_json message = Some v"
    and ds: "opt_prop (opt_prop (Some v) (js ''error'')) (js ''details'') = Some (JArray ds)"
    and d: "d \<in> set ds" "has_invalid_reason d"
    by (auto simp: spec_key_envelope_def list_ex_iff split: option.splits json.splits)
  from d(2) have "js ''API_KEY_INVALID'' \<in> jstrings d"
    using get_prop_strings [of d "js ''reason''" "JString (js ''API_KEY_INVALID'')"]
    by (simp add: has_invalid_reason_def)
  with d(1) have "js ''API_KEY_INVALID'' \<in> jstrings (JArray ds)" by auto
  moreover from opt_prop_strings [OF ds] obtain e where
    e: "opt_prop (Some v) (js ''error'') = Some e" "jstrings (JArray ds) \<subseteq> jstrings e"
    by blast
  moreover from opt_prop_strings [OF e(1)] have "jstrings e \<subseteq> jstrings v" by auto
  ultimately show ?thesis using v by blast
qed

section \<open>The structured probe\<close>

lemma array_some_reason:
  "array_some (reason_is_invalid h) ds = Inr True \<Longrightarrow> list_ex has_invalid_reason ds"
proof (induction ds)
  case Nil
  then show ?case by simp
next
  case (Cons d ds)
  then show ?case
    by (cases d) (auto simp: reason_is_invalid_def has_invalid_reason_def split: if_splits)
qed

lemma array_some_no_null:
  "JNull \<notin> set ds \<Longrightarrow>
     array_some (reason_is_invalid h) ds = Inr (list_ex has_invalid_reason ds)"
proof (induction ds)
  case Nil
  then show ?case by simp
next
  case (Cons d ds)
  then show ?case
    by (cases d) (auto simp: reason_is_invalid_def has_invalid_reason_def)
qed

lemma api_key_probe_envelope:
  "api_key_probe h message = Inr True \<Longrightarrow> spec_key_envelope message"
  by (auto simp: api_key_probe_def spec_key_envelope_def JSON_parse_def
      split: option.splits json.splits dest: array_some_reason)

text \<open>
  On every message whose \<open>details\<close> array has no \<open>null\<close> entry, the classifier
  decides as the specification says: a configuration error for either phrase or for a
  matching entry, the generic failure otherwise.
\<close>

lemma handleError_classification:
  assumes "\<not> startsWith message config_prefix" and "no_null_detail message"
  shows "(handleError h (ErrorObject n message) ctx :: thrown + 'a) =
           (if str_includes message (js ''API key not valid'') \<or>
               str_includes message (js ''API_KEY_INVALID'') \<or>
               spec_key_envelope message
            then Inl (new_Error config_message)
            else Inl (new_Error (js ''Failed to '' @ ctx @ js ''. '' @ message)))"
proof -
  have "api_key_probe h message = Inr (spec_key_envelope message) \<or>
        (\<exists>e. api_key_probe h message = Inl e \<and> \<not> spec_key_envelope message)"
    using assms(2)
    by (auto simp: api_key_probe_def spec_key_envelope_def no_null_detail_def JSON_parse_def
        array_some_no_null split: option.splits json.splits)
  then have "isApiKeyError h message \<longleftrightarrow>
          str_includes message (js ''API key not valid'') \<or>
          str_includes message (js ''API_KEY_INVALID'') \<or> spec_key_envelope message"
    by (auto simp: isApiKeyError_def)
  with assms(1) show ?thesis
    by (simp add: handleError_def)
qed

section \<open>The scan of the parts\<close>

lemma last_filter: "filter P ps = q # qs \<Longrightarrow> P (last (q # qs))"
proof -
  assume a: "filter P ps = q # qs"
  have "last (q # qs) \<in> set (filter P ps)"
    unfolding a by (rule last_in_set) simp
  then show ?thesis by simp
qed

lemma last_text_Cons:
  "last_text (p # ps) = or_else (last_text ps) (if is_text_part p then part_text p else None)"
proof (cases "filter is_text_part ps")
  case Nil
  then show ?thesis by (simp add: last_text_def or_else_def)
next
  case (Cons q qs)
  from last_filter [OF Cons] obtain x where "part_text (last (q # qs)) = Some x"
    by (auto simp: is_text_part_def truthy_str_def split: option.splits)
  with Cons show ?thesis by (simp add: last_text_def or_else_def)
qed

lemma last_image_Cons:
  "last_image (p # ps) =
     or_else (last_image ps)
       (if is_image_part p then map_option data_uri (part_inlineData p) else None)"
proof (cases "filter is_image_part ps")
  case Nil
  then show ?thesis by (simp add: last_image_def or_else_def)
next
  case (Cons q qs)
  from last_filter [OF Cons] obtain b where "part_inlineData (last (q # qs)) = Some b"
    by (auto simp: is_image_part_def)
  with Cons show ?thesis by (simp add: last_image_def or_else_def)
qed

lemma scan_parts_last:
  "scan_parts ps (t, i) = (or_else (last_text ps) t, or_else (last_image ps) i)"
proof (induction ps arbitrary: t i)
  case Nil
  then show ?case by (simp add: last_text_def last_image_def or_else_def)
next
  case (Cons p ps)
  show ?case
  proof (cases "truthy_str (part_text p)")
    case True
    then show ?thesis
      by (simp add: Cons.IH last_text_Cons last_image_Cons is_text_part_def is_image_part_def
          or_else_def truthy_str_def split: option.splits)
  next
    case False
    then show ?thesis
      by (cases "part_inlineData p")
        (simp_all add: Cons.IH last_text_Cons last_image_Cons is_text_part_def is_image_part_def
          or_else_def split: option.splits)
  qed
qed

lemma truthy_last_image: "truthy_str (last_image ps) \<longleftrightarrow> last_image ps \<noteq> None"
proof -
  have "data_uri b \<noteq> []" for b
    by (simp add: data_uri_def js_def)
  then show ?thesis
    by (auto simp: truthy_str_def last_image_def split: option.splits list.splits)
qed

lemma scan_parts_image_unchanged:
  "\<forall>p \<in> set ps. part_inlineData p \<noteq> None \<longrightarrow> truthy_str (part_text p) \<Longrightarrow>
     snd (scan_parts ps (t, i)) = i"
  by (induction ps arbitrary: t) (auto split: option.splits)

lemma editImage_scan:
  assumes "getAiInstance h w = (Inr ai, w1)"
    and "generateContent h ai (editImage_request prompt imageFile) = Inr response"
    and "candidates response = parts # rest"
  shows "fst (editImage h prompt imageFile w) =
           (case scan_parts parts (None, None) of
              (resultText, resultImage) \<Rightarrow>
                if truthy_str resultImage
                then Inr \<lparr>result_text = resultText, result_image = resultImage\<rparr>
                else Inl (new_Error
                       (js ''Failed to edit image. The AI did not return an edited image.'')))"
  using assms
  by (simp add: editImage_def editImage_try_def call_generateContent_def catch_with_def
      no_edited_image_generic split: prod.splits)

lemma editImage_parts_host:
  "fst (editImage (parts_host ps) prompt imageFile fresh_world) =
     (case scan_parts ps (None, None) of
        (resultText, resultImage) \<Rightarrow>
          if truthy_str resultImage
          then Inr \<lparr>result_text = resultText, result_image = resultImage\<rparr>
          else Inl (new_Error
                 (js ''Failed to edit image. The AI did not return an edited image.'')))"
  unfolding parts_host_def
  by (rule editImage_scan [OF getAiInstance_fresh,
        where response = "\<lparr>response_text = None, candidates = [ps]\<rparr>" and rest = "[]"])
    simp_all

section \<open>C1: what the classifier detects\<close>

text \<open>
  C1. For an error whose message does not start with the configuration prefix,
  the specification has \<open>handleError\<close> throw the configuration error exactly when the
  message contains one of the two phrases or parses as an envelope whose
  \<open>error.details\<close> array has an entry with the reason \<open>API_KEY_INVALID\<close>. The message
  \<open>null_entry_message\<close> is such an envelope, yet \<open>handleError\<close> throws the generic
  failure for it: the callback of \<open>some\<close> reads \<open>reason\<close> of the leading \<open>null\<close>, the
  TypeError ends the scan before the matching entry is reached, and the \<open>catch\<close>
  clause meant for a text that is not JSON swallows it.
\<close>

theorem handleError_null_entry:
  "spec_key_envelope null_entry_message \<and>
   \<not> startsWith null_entry_message config_prefix \<and>
   (handleError (offline_host None) (new_Error null_entry_message) (js ''generate text'')
      :: thrown + unit)
     = Inl (new_Error (js ''Failed to generate text. '' @ null_entry_message))"
proof -
  have "spec_key_envelope null_entry_message"
    by (simp add: spec_key_envelope_def parse_null_entry has_invalid_reason_def)
  moreover have "\<not> startsWith null_entry_message config_prefix"
    by (simp add: null_entry_message_def config_prefix_def js_def)
  moreover have "(handleError (offline_host None) (new_Error null_entry_message)
      (js ''generate text'') :: thrown + unit)
     = Inl (new_Error (js ''Failed to generate text. '' @ null_entry_message))"
    by (simp add: null_entry_message_def eval_defs reason_is_invalid_def)
  ultimately show ?thesis by blast
qed

section \<open>C2: a missing credential fails before any remote call\<close>

text \<open>
  C2. When the credential is absent or the empty string and no client exists,
  \<open>getAiInstance\<close> and each of the six exported operations throw the error with the
  fixed configuration message and leave the world as it was: \<open>aiInstance\<close> is still
  empty and no remote call has been recorded.
\<close>

theorem no_credential_fails_fast:
  assumes "API_KEY h = None \<or> API_KEY h = Some []" and "aiInstance w = None"
  shows "getAiInstance h w = (Inl (new_Error config_message), w) \<and>
    generateImage h prompt n w = (Inl (new_Error config_message), w) \<and>
    generateStructuredText h prompt sch w = (Inl (new_Error config_message), w) \<and>
    generateText h prompt w = (Inl (new_Error config_message), w) \<and>
    generateTextWithImage h prompt imageFile isJson w = (Inl (new_Error config_message), w) \<and>
    editImage h prompt imageFile w = (Inl (new_Error config_message), w) \<and>
    generateColorPalette h theme w = (Inl (new_Error config_message), w)"
proof -
  note g = getAiInstance_no_key [OF assms]
  have st: "generateStructuredText h p s w = (Inl (new_Error config_message), w)" for p s
    by (simp add: generateStructuredText_def generateStructuredText_try_def g catch_with_config)
  have "generateImage h prompt n w = (Inl (new_Error config_message), w)"
    by (simp add: generateImage_def generateImage_try_def g catch_with_config)
  moreover have "generateText h prompt w = (Inl (new_Error config_message), w)"
    by (simp add: generateText_def generateText_try_def g catch_with_config)
  moreover have "generateTextWithImage h prompt imageFile isJson w
      = (Inl (new_Error config_message), w)"
    by (simp add: generateTextWithImage_def generateTextWithImage_try_def g catch_with_config)
  moreover have "editImage h prompt imageFile w = (Inl (new_Error config_message), w)"
    by (simp add: editImage_def editImage_try_def g catch_with_config)
  moreover have "generateColorPalette h theme w = (Inl (new_Error config_message), w)"
    by (simp add: generateColorPalette_def generateColorPalette_try_def st catch_with_config)
  ultimately show ?thesis using g st by simp
qed

theorem no_credential_fails_fast_witness:
  "(API_KEY (offline_host (Some [])) = None \<or> API_KEY (offline_host (Some [])) = Some []) \<and>
   aiInstance fresh_world = None \<and>
   getAiInstance (offline_host (Some [])) fresh_world
     = (Inl (new_Error config_message), fresh_world) \<and>
   generateImage (offline_host (Some [])) (js ''a cat'') None fresh_world
     = (Inl (new_Error config_message), fresh_world) \<and>
   generateStructuredText (offline_host (Some [])) (js ''a cat'') palette_schema fresh_world
     = (Inl (new_Error config_message), fresh_world) \<and>
   generateText (offline_host (Some [])) (js ''a cat'') fresh_world
     = (Inl (new_Error config_message), fresh_world) \<and>
   generateTextWithImage (offline_host (Some [])) (js ''a cat'') png_file True fresh_world
     = (Inl (new_Error config_message), fresh_world) \<and>
   editImage (offline_host (Some [])) (js ''a cat'') png_file fresh_world
     = (Inl (new_Error config_message), fresh_world) \<and>
   generateColorPalette (offline_host (Some [])) (js ''sunset'') fresh_world
     = (Inl (new_Error config_message), fresh_world)"
proof -
  have k: "API_KEY (offline_host (Some [])) = None \<or> API_KEY (offline_host (Some [])) = Some []"
    by (simp add: offline_host_def test_host_def)
  have a: "aiInstance fresh_world = None"
    by (simp add: fresh_world_def)
  show ?thesis
    using k a
      no_credential_fails_fast [OF k a, of "js ''a cat''" None palette_schema png_file True
        "js ''sunset''"]
    by blast
qed

section \<open>C3: the last text and the last image win\<close>

text \<open>
  C3, as amended. For the parts of the first candidate of a response, \<open>editImage\<close>
  returns as text the text of the last part whose text is present and not empty (or
  nothing when no part has one) and as image the data URI of the last part that has
  inline data and no such text; later parts of a kind overwrite earlier ones. When no
  part of the second kind is found, it throws the generic failure that says that no
  edited image was returned.
\<close>

theorem editImage_last_write_wins:
  assumes "getAiInstance h w = (Inr ai, w1)"
    and "generateContent h ai (editImage_request prompt imageFile) = Inr response"
    and "candidates response = parts # rest"
  shows "fst (editImage h prompt imageFile w) =
           (if last_image parts = None
            then Inl (new_Error
                   (js ''Failed to edit image. The AI did not return an edited image.''))
            else Inr \<lparr>result_text = last_text parts, result_image = last_image parts\<rparr>)"
proof -
  have scan: "scan_parts parts (None, None) = (last_text parts, last_image parts)"
    by (simp add: scan_parts_last or_else_def split: option.splits)
  show ?thesis
    by (simp add: editImage_scan [OF assms] scan truthy_last_image)
qed

theorem editImage_last_write_wins_witness:
  "fst (editImage
          (parts_host [text_part (js ''A''), image_part (js ''AAAA''),
                       text_part (js ''B''), image_part (js ''BBBB'')])
          (js ''brighter'') png_file fresh_world)
     = Inr \<lparr>result_text = Some (js ''B''),
            result_image = Some (js ''data:image/png;base64,BBBB'')\<rparr> \<and>
   fst (editImage (parts_host [text_part (js ''A''), text_part (js ''B'')])
          (js ''brighter'') png_file fresh_world)
     = Inl (new_Error (js ''Failed to edit image. The AI did not return an edited image.''))"
proof -
  let ?ps = "[text_part (js ''A''), image_part (js ''AAAA''),
              text_part (js ''B''), image_part (js ''BBBB'')]"
  let ?qs = "[text_part (js ''A''), text_part (js ''B'')]"
  have t: "last_text ?ps = Some (js ''B'')"
    by (simp add: last_text_def is_text_part_def part_defs truthy_str_def js_def)
  have i: "last_image ?ps = Some (js ''data:image/png;base64,BBBB'')"
    by (simp add: last_image_def is_image_part_def part_defs truthy_str_def data_uri_def
        template_str_def js_def)
  have j: "last_image ?qs = None"
    by (simp add: last_image_def is_image_part_def part_defs truthy_str_def js_def)
  have "fst (editImage (parts_host ?ps) (js ''brighter'') png_file fresh_world)
     = Inr \<lparr>result_text = Some (js ''B''),
            result_image = Some (js ''data:image/png;base64,BBBB'')\<rparr>"
    using editImage_last_write_wins [of "parts_host ?ps" fresh_world _ _ "js ''brighter''"
        png_file _ ?ps "[]"]
    by (simp add: parts_host_def getAiInstance_fresh t i)
  moreover have "fst (editImage (parts_host ?qs) (js ''brighter'') png_file fresh_world)
     = Inl (new_Error (js ''Failed to edit image. The AI did not return an edited image.''))"
    using editImage_last_write_wins [of "parts_host ?qs" fresh_world _ _ "js ''brighter''"
        png_file _ ?qs "[]"]
    by (simp add: parts_host_def getAiInstance_fresh j)
  ultimately show ?thesis by blast
qed

text \<open>
  The claim as stated fails on a text part whose text is the empty string: the part
  is the last (and only) part with a text field, but the returned text is \<open>null\<close>.
\<close>

theorem editImage_empty_text_counterexample:
  "fst (editImage (parts_host [text_part [], image_part (js ''AAAA'')]) (js ''brighter'')
          png_file fresh_world)
     = Inr \<lparr>result_text = None, result_image = Some (js ''data:image/png;base64,AAAA'')\<rparr> \<and>
   spec_last_text [text_part [], image_part (js ''AAAA'')] = Some []"
proof -
  have "fst (editImage (parts_host [text_part [], image_part (js ''AAAA'')]) (js ''brighter'')
          png_file fresh_world)
     = Inr \<lparr>result_text = None, result_image = Some (js ''data:image/png;base64,AAAA'')\<rparr>"
    by (simp add: editImage_parts_host part_defs truthy_str_def data_uri_def template_str_def
        js_def)
  moreover have "spec_last_text [text_part [], image_part (js ''AAAA'')] = Some []"
    by (simp add: spec_last_text_def spec_is_text_part_def part_defs)
  ultimately show ?thesis by blast
qed

section \<open>C4: the palette is returned as it comes\<close>

text \<open>
  C4, as amended. Whenever \<open>generateColorPalette\<close> resolves, the response had a text
  and the result is the array found at the property \<open>palette\<close> of the object that the
  trimmed text parses to, unchanged; the code checks neither the number of entries
  nor their shape.
\<close>

theorem generateColorPalette_returns_palette:
  assumes "generateColorPalette h theme w = (Inr v, w')"
  shows "\<exists>ai response t ms palette.
           generateContent h ai
               (generateStructuredText_request (palette_prompt theme) palette_schema)
             = Inr response \<and>
           response_text response = Some t \<and>
           parse_json (trim t) = Some (JObject ms) \<and>
           map_of ms (js ''palette'') = Some (JArray palette) \<and>
           v = JArray palette"
proof -
  have he: "(handleError h e c :: thrown + json) \<noteq> Inr x" for e c x
    by (cases e) (simp_all add: handleError_def)
  from assms obtain result w1 where
    st: "generateStructuredText h (palette_prompt theme) palette_schema w = (Inr result, w1)"
    and rp: "read_prop h (Some result) (js ''palette'') = Inr (Some v)"
    and arr: "\<exists>palette. v = JArray palette"
    by (auto simp: generateColorPalette_def generateColorPalette_try_def catch_with_def he
        split: prod.splits sum.splits option.splits json.splits)
  from rp obtain ms where ms: "result = JObject ms" "map_of ms (js ''palette'') = Some v"
    by (cases result) auto
  from st obtain ai response t where
    "generateContent h ai (generateStructuredText_request (palette_prompt theme) palette_schema)
       = Inr response"
    "response_text response = Some t"
    "parse_json (trim t) = Some result"
    by (auto simp: generateStructuredText_def generateStructuredText_try_def catch_with_def he
        call_generateContent_def JSON_parse_def
        split: prod.splits sum.splits option.splits)
  with ms arr show ?thesis by blast
qed

theorem generateColorPalette_returns_palette_witness:
  "fst (generateColorPalette (text_host dusk_palette) (js ''sunset'') fresh_world)
     = Inr (JArray [JObject [(js ''name'', JString (js ''Dusk'')),
                             (js ''hex'', JString (js ''#2B2D42''))]]) \<and>
   (\<exists>ai response t ms palette.
      generateContent (text_host dusk_palette) ai
          (generateStructuredText_request (palette_prompt (js ''sunset'')) palette_schema)
        = Inr response \<and>
      response_text response = Some t \<and>
      parse_json (trim t) = Some (JObject ms) \<and>
      map_of ms (js ''palette'') = Some (JArray palette) \<and>
      JArray [JObject [(js ''name'', JString (js ''Dusk'')),
                       (js ''hex'', JString (js ''#2B2D42''))]] = JArray palette)"
proof -
  let ?v = "JArray [JObject [(js ''name'', JString (js ''Dusk'')),
                             (js ''hex'', JString (js ''#2B2D42''))]]"
  have p: "parse_json (trim dusk_palette) = Some (JObject [(js ''palette'', ?v)])"
    by (simp add: dusk_palette_def trim_def is_trim_space_def parse_json_def js_def lex_defs)
  have "generateColorPalette (text_host dusk_palette) (js ''sunset'') fresh_world
     = (Inr ?v, snd (generateColorPalette (text_host dusk_palette) (js ''sunset'') fresh_world))"
    by (simp add: generateColorPalette_def generateColorPalette_try_def
        generateStructuredText_text_host p catch_with_def)
  from generateColorPalette_returns_palette [OF this] this show ?thesis
    by (metis fst_conv)
qed

text \<open>
  The claim as stated fails when the service answers with a palette of one entry that
  is a number: the operation resolves with that array.
\<close>

theorem generateColorPalette_short_palette:
  \<open>fst (generateColorPalette (text_host (js ''{"palette":[7]}'')) (js ''sunset'') fresh_world)
     = Inr (JArray [JNumber (js ''7'')]) \<and>
   length [JNumber (js ''7'')] \<noteq> 5\<close>
proof -
  have p: \<open>parse_json (trim (js ''{"palette":[7]}''))
      = Some (JObject [(js ''palette'', JArray [JNumber (js ''7'')])])\<close>
    by (simp add: trim_def is_trim_space_def parse_json_def js_def lex_defs)
  have \<open>fst (generateColorPalette (text_host (js ''{"palette":[7]}'')) (js ''sunset'')
          fresh_world)
     = Inr (JArray [JNumber (js ''7'')])\<close>
    by (simp add: generateColorPalette_def generateColorPalette_try_def
        generateStructuredText_text_host p catch_with_def)
  then show ?thesis by simp
qed

section \<open>C5: the text operations\<close>

text \<open>
  C5, as amended. \<open>generateText\<close> returns the text of the response as it is, a string
  or \<open>undefined\<close>, without trimming it. \<open>generateStructuredText\<close> trims the text of
  the response and parses the result as JSON: it returns the parsed value, and when
  the text does not parse, the SyntaxError goes to \<open>handleError\<close> and the operation
  throws what \<open>handleError\<close> throws for it. When the response has no text, reading
  \<open>trim\<close> throws a TypeError, which goes to \<open>handleError\<close> in the same way.
\<close>

theorem text_operations:
  assumes "getAiInstance h w = (Inr ai, w1)"
  shows "(generateContent h ai (generateText_request prompt) = Inr response \<longrightarrow>
            fst (generateText h prompt w) = Inr (response_text response)) \<and>
         (generateContent h ai (generateStructuredText_request prompt sch) = Inr response \<longrightarrow>
            fst (generateStructuredText h prompt sch w) =
              (case response_text response of
                 None \<Rightarrow>
                   handleError h
                     (ErrorObject (js ''TypeError'') (type_error_message h (js ''trim'')))
                     (js ''generate structured text'')
               | Some t \<Rightarrow>
                   (case parse_json (trim t) of
                      Some v \<Rightarrow> Inr v
                    | None \<Rightarrow>
                        handleError h
                          (ErrorObject (js ''SyntaxError'') (syntax_error_message h (trim t)))
                          (js ''generate structured text''))))"
  using assms
  by (simp add: generateText_def generateText_try_def generateStructuredText_def
      generateStructuredText_try_def call_generateContent_def catch_with_def JSON_parse_def
      split: option.splits)

theorem text_operations_witness:
  "fst (generateText (text_host (js '' [7] '')) (js ''seven'') fresh_world)
     = Inr (Some (js '' [7] '')) \<and>
   fst (generateText (answer_host None) (js ''seven'') fresh_world) = Inr None \<and>
   fst (generateStructuredText (text_host (js '' [7] '')) (js ''seven'') palette_schema fresh_world)
     = Inr (JArray [JNumber (js ''7'')]) \<and>
   fst (generateStructuredText (text_host (js ''seven'')) (js ''seven'') palette_schema fresh_world)
     = Inl (new_Error (js ''Failed to generate structured text. Unexpected token'')) \<and>
   fst (generateStructuredText (answer_host None) (js ''seven'') palette_schema fresh_world)
     = Inl (new_Error (js ''Failed to generate structured text. Cannot read properties''))"
proof -
  have p1: "parse_json (trim (js '' [7] '')) = Some (JArray [JNumber (js ''7'')])"
    by (simp add: trim_def is_trim_space_def parse_json_def js_def lex_defs)
  have p2: "parse_json (trim (js ''seven'')) = None"
    by (simp add: trim_def is_trim_space_def parse_json_def js_def lex_defs)
  have h: "handleError (text_host (js ''seven''))
             (ErrorObject (js ''SyntaxError'') (js ''Unexpected token''))
             (js ''generate structured text'')
           = Inl (new_Error (js ''Failed to generate structured text. Unexpected token''))"
    by (simp add: eval_defs)
  have k: "handleError (answer_host None)
             (ErrorObject (js ''TypeError'') (js ''Cannot read properties''))
             (js ''generate structured text'')
           = Inl (new_Error (js ''Failed to generate structured text. Cannot read properties''))"
    by (simp add: eval_defs)
  note a = text_operations [OF getAiInstance_text_host, of "js '' [7] ''" "js ''seven''"
      "\<lparr>response_text = Some (js '' [7] ''), candidates = []\<rparr>" palette_schema]
  note b = text_operations [OF getAiInstance_text_host, of "js ''seven''" "js ''seven''"
      "\<lparr>response_text = Some (js ''seven''), candidates = []\<rparr>" palette_schema]
  note c = text_operations [OF getAiInstance_answer_host, of None "js ''seven''"
      "\<lparr>response_text = None, candidates = []\<rparr>" palette_schema]
  from a have "fst (generateText (text_host (js '' [7] '')) (js ''seven'') fresh_world)
      = Inr (Some (js '' [7] ''))"
    by (simp add: generateContent_text_host)
  moreover from c have "fst (generateText (answer_host None) (js ''seven'') fresh_world)
      = Inr None"
    by (simp add: generateContent_answer_host)
  moreover from a have "fst (generateStructuredText (text_host (js '' [7] '')) (js ''seven'')
      palette_schema fresh_world) = Inr (JArray [JNumber (js ''7'')])"
    by (simp add: generateContent_text_host p1)
  moreover from b have "fst (generateStructuredText (text_host (js ''seven'')) (js ''seven'')
      palette_schema fresh_world)
     = Inl (new_Error (js ''Failed to generate structured text. Unexpected token''))"
    by (simp add: generateContent_text_host p2 h)
  moreover from c have "fst (generateStructuredText (answer_host None) (js ''seven'')
      palette_schema fresh_world)
     = Inl (new_Error (js ''Failed to generate structured text. Cannot read properties''))"
    by (simp add: generateContent_answer_host k)
  ultimately show ?thesis by blast
qed

text \<open>
  The claim as stated fails on a response whose text has a space on either side:
  \<open>generateText\<close> returns the text with its spaces, which is not the trimmed text.
\<close>

theorem generateText_untrimmed:
  "fst (generateText (text_host (js '' ok '')) (js ''say ok'') fresh_world)
     = Inr (Some (js '' ok '')) \<and>
   trim (js '' ok '') = js ''ok'' \<and>
   fst (generateText (text_host (js '' ok '')) (js ''say ok'') fresh_world)
     \<noteq> Inr (Some (trim (js '' ok '')))"
proof -
  have t: "trim (js '' ok '') = js ''ok''"
    by (simp add: trim_def is_trim_space_def js_def)
  have g: "fst (generateText (text_host (js '' ok '')) (js ''say ok'') fresh_world)
      = Inr (Some (js '' ok ''))"
    by (simp add: generateText_def generateText_try_def getAiInstance_text_host
        call_generateContent_def generateContent_text_host catch_with_def)
  have "js '' ok '' \<noteq> js ''ok''"
    by (simp add: js_def)
  with t g show ?thesis by simp
qed

section \<open>C6: the lenient parse of a text with image\<close>

text \<open>
  C6. With \<open>isJson\<close> set, \<open>generateTextWithImage\<close> does not throw on a response: when
  the text of the response does not parse as JSON it returns the object whose only
  property \<open>rawResponse\<close> is that text, and when the text parses it returns the parsed
  value. A response without text counts as one whose text does not parse.
\<close>

theorem generateTextWithImage_lenient:
  assumes "getAiInstance h w = (Inr ai, w1)"
    and "generateContent h ai (generateTextWithImage_request prompt imageFile True)
           = Inr response"
  shows "fst (generateTextWithImage h prompt imageFile True w) =
           (case parse_json (template_str (response_text response)) of
              None \<Rightarrow> Inr (Fallback \<lparr>rawResponse = response_text response\<rparr>)
            | Some v \<Rightarrow> Inr (ParsedJson v))"
  using assms
  by (simp add: generateTextWithImage_def generateTextWithImage_try_def
      call_generateContent_def catch_with_def JSON_parse_def split: option.splits)

theorem generateTextWithImage_lenient_witness:
  \<open>fst (generateTextWithImage (text_host (js ''Sorry, no JSON'')) (js ''describe'') png_file True
          fresh_world)
     = Inr (Fallback \<lparr>rawResponse = Some (js ''Sorry, no JSON'')\<rparr>) \<and>
   fst (generateTextWithImage (answer_host None) (js ''describe'') png_file True fresh_world)
     = Inr (Fallback \<lparr>rawResponse = None\<rparr>) \<and>
   fst (generateTextWithImage (text_host (js ''{"cats": [1, true]}'')) (js ''describe'') png_file
          True fresh_world)
     = Inr (ParsedJson (JObject [(js ''cats'', JArray [JNumber (js ''1''), JBool True])]))\<close>
proof -
  have p1: "parse_json (template_str (Some (js ''Sorry, no JSON''))) = None"
    by (simp add: template_str_def parse_json_def js_def lex_defs)
  have p0: "parse_json (template_str None) = None"
    by (simp add: template_str_def parse_json_def js_def lex_defs)
  have p2: \<open>parse_json (template_str (Some (js ''{"cats": [1, true]}'')))
      = Some (JObject [(js ''cats'', JArray [JNumber (js ''1''), JBool True])])\<close>
    by (simp add: template_str_def parse_json_def js_def lex_defs)
  have "fst (generateTextWithImage (text_host (js ''Sorry, no JSON'')) (js ''describe'') png_file
          True fresh_world)
     = Inr (Fallback \<lparr>rawResponse = Some (js ''Sorry, no JSON'')\<rparr>)"
    using generateTextWithImage_lenient [OF getAiInstance_text_host generateContent_text_host,
        of "js ''Sorry, no JSON''" "js ''describe''" png_file]
    by (simp add: p1)
  moreover have "fst (generateTextWithImage (answer_host None) (js ''describe'') png_file True
          fresh_world)
     = Inr (Fallback \<lparr>rawResponse = None\<rparr>)"
    using generateTextWithImage_lenient [OF getAiInstance_answer_host
        generateContent_answer_host, of None "js ''describe''" png_file]
    by (simp add: p0)
  moreover have \<open>fst (generateTextWithImage (text_host (js ''{"cats": [1, true]}''))
          (js ''describe'') png_file True fresh_world)
     = Inr (ParsedJson (JObject [(js ''cats'', JArray [JNumber (js ''1''), JBool True])]))\<close>
    using generateTextWithImage_lenient [OF getAiInstance_text_host generateContent_text_host,
        of \<open>js ''{"cats": [1, true]}''\<close> "js ''describe''" png_file]
    by (simp add: p2)
  ultimately show ?thesis by blast
qed

section \<open>C7: the generated images\<close>






section \<open>C8: a configuration error passes through\<close>

text \<open>
  C8. An error whose message starts with the fixed prefix is thrown again by
  \<open>handleError\<close> as it is, with its own name and message, and not as the generic
  failure that wraps its message; and whatever value \<open>handleError\<close> is given, it throws:
  it has no normal result.
\<close>

theorem handleError_passthrough:
  "(startsWith message config_prefix \<longrightarrow>
      (handleError h (ErrorObject n message) ctx :: thrown + 'a) = Inl (ErrorObject n message) \<and>
      (handleError h (ErrorObject n message) ctx :: thrown + 'a) \<noteq>
        Inl (new_Error (js ''Failed to '' @ ctx @ js ''. '' @ message))) \<and>
   (\<exists>e. (handleError h x ctx :: thrown + 'a) = Inl e)"
proof -
  have "\<exists>e. (handleError h x ctx :: thrown + 'a) = Inl e"
    by (cases x) (simp_all add: handleError_def)
  moreover have "ErrorObject n message \<noteq> new_Error (js ''Failed to '' @ ctx @ js ''. '' @ message)"
    by (simp add: new_Error_def js_def)
  ultimately show ?thesis
    by (simp add: handleError_def)
qed

theorem handleError_passthrough_witness:
  "startsWith config_message config_prefix \<and>
   (handleError (offline_host None)
      (ErrorObject (js ''ApiError'') config_message) (js ''edit image'') :: thrown + unit)
     = Inl (ErrorObject (js ''ApiError'') config_message) \<and>
   (handleError (offline_host None)
      (ErrorObject (js ''ApiError'') config_message) (js ''edit image'') :: thrown + unit)
     \<noteq> Inl (new_Error (js ''Failed to '' @ js ''edit image'' @ js ''. '' @ config_message)) \<and>
   (\<exists>e. (handleError (offline_host None) NonError (js ''edit image'') :: thrown + unit) = Inl e)"
  using handleError_passthrough [of config_message "offline_host None"
      "js ''ApiError''" "js ''edit image''" NonError, where ?'a = unit]
    config_message_prefix
  by blast

section \<open>C9: when the structured probe is redundant\<close>

text \<open>
  C9, as amended. For an error message without reverse solidus, hence without escape
  sequence: if the message parses as an envelope whose \<open>error.details\<close> array has an
  entry with the reason \<open>API_KEY_INVALID\<close>, then the message contains the substring
  \<open>API_KEY_INVALID\<close>, and the classifier without the probe throws what the classifier
  as written throws.
\<close>

theorem probe_redundant_without_escapes:
  assumes "0x5C \<notin> set message"
  shows "(spec_key_envelope message \<longrightarrow> str_includes message (js ''API_KEY_INVALID'')) \<and>
         (handleError h (ErrorObject n message) ctx :: thrown + 'a)
           = handleError_without_probe (ErrorObject n message) ctx"
proof -
  have a: "str_includes message (js ''API_KEY_INVALID'')" if "spec_key_envelope message"
  proof -
    from spec_key_envelope_strings [OF that] obtain v where
      "parse_json message = Some v" "js ''API_KEY_INVALID'' \<in> jstrings v"
      by blast
    with parse_json_plain_strings [OF assms] have "sublist (js ''API_KEY_INVALID'') message"
      by blast
    then show ?thesis by (simp add: str_includes_sublist)
  qed
  have "isApiKeyError h message \<longleftrightarrow>
          str_includes message (js ''API key not valid'') \<or>
          str_includes message (js ''API_KEY_INVALID'')"
    using a api_key_probe_envelope [of h message]
    by (auto simp: isApiKeyError_def split: sum.splits)
  then have "(handleError h (ErrorObject n message) ctx :: thrown + 'a)
           = handleError_without_probe (ErrorObject n message) ctx"
    by (simp add: handleError_def handleError_without_probe_def)
  with a show ?thesis by blast
qed

theorem probe_redundant_without_escapes_witness:
  "0x5C \<notin> set plain_key_message \<and>
   spec_key_envelope plain_key_message \<and>
   str_includes plain_key_message (js ''API_KEY_INVALID'') \<and>
   (handleError (offline_host None) (ErrorObject (js ''ApiError'') plain_key_message)
      (js ''generate text'') :: thrown + unit)
     = handleError_without_probe (ErrorObject (js ''ApiError'') plain_key_message)
         (js ''generate text'')"
proof -
  have n: "0x5C \<notin> set plain_key_message"
    by (simp add: plain_key_message_def js_def)
  have e: "spec_key_envelope plain_key_message"
    by (simp add: spec_key_envelope_def parse_plain_key has_invalid_reason_def)
  from probe_redundant_without_escapes [OF n, of "offline_host None" "js ''ApiError''"
      "js ''generate text''", where ?'a = unit] n e
  show ?thesis by blast
qed

text \<open>
  The claim as stated fails on the envelope whose reason is written with an escape
  sequence: the message does not contain the substring, the probe finds the reason,
  and the two classifiers throw different errors.
\<close>

theorem probe_not_redundant:
  "\<not> str_includes escaped_key_message (js ''API_KEY_INVALID'') \<and>
   spec_key_envelope escaped_key_message \<and>
   (handleError (offline_host None) (new_Error escaped_key_message) (js ''generate text'')
      :: thrown + unit) = Inl (new_Error config_message) \<and>
   (handleError_without_probe (new_Error escaped_key_message) (js ''generate text'')
      :: thrown + unit)
     = Inl (new_Error (js ''Failed to generate text. '' @ escaped_key_message))"
proof -
  have "\<not> str_includes escaped_key_message (js ''API_KEY_INVALID'')"
    by (simp add: escaped_key_message_def js_def)
  moreover have "spec_key_envelope escaped_key_message"
    by (simp add: spec_key_envelope_def parse_escaped_key has_invalid_reason_def)
  moreover have "(handleError (offline_host None) (new_Error escaped_key_message)
      (js ''generate text'') :: thrown + unit) = Inl (new_Error config_message)"
    by (simp add: escaped_key_message_def eval_defs reason_is_invalid_def)
  moreover have "(handleError_without_probe (new_Error escaped_key_message)
      (js ''generate text'') :: thrown + unit)
     = Inl (new_Error (js ''Failed to generate text. '' @ escaped_key_message))"
    by (simp add: escaped_key_message_def handleError_without_probe_def new_Error_def
        config_prefix_def js_def)
  ultimately show ?thesis by blast
qed

section \<open>C10: a part with text and inline data\<close>

text \<open>
  C10, as amended. A part that has a text that is not empty and also inline data
  contributes its text only: the scan sets the result text and leaves the result image
  as it was. So when every part that has inline data also has a text that is not
  empty, \<open>editImage\<close> throws the generic failure that says that no edited image was
  returned.
\<close>

theorem text_branch_precedence:
  "(truthy_str (part_text p) \<longrightarrow>
      scan_parts (p # ps) (t, i) = scan_parts ps (part_text p, i)) \<and>
   (getAiInstance h w = (Inr ai, w1) \<and>
    generateContent h ai (editImage_request prompt imageFile) = Inr response \<and>
    candidates response = parts # rest \<and>
    (\<forall>q \<in> set parts. part_inlineData q \<noteq> None \<longrightarrow> truthy_str (part_text q)) \<longrightarrow>
      fst (editImage h prompt imageFile w)
        = Inl (new_Error (js ''Failed to edit image. The AI did not return an edited image.'')))"
proof -
  have "fst (editImage h prompt imageFile w)
        = Inl (new_Error (js ''Failed to edit image. The AI did not return an edited image.''))"
    if a: "getAiInstance h w = (Inr ai, w1)"
      "generateContent h ai (editImage_request prompt imageFile) = Inr response"
      "candidates response = parts # rest"
      and b: "\<forall>q \<in> set parts. part_inlineData q \<noteq> None \<longrightarrow> truthy_str (part_text q)"
  proof -
    from scan_parts_image_unchanged [OF b, of None None]
    obtain x where "scan_parts parts (None, None) = (x, None)"
      by (cases "scan_parts parts (None, None)") auto
    with editImage_scan [OF a] show ?thesis
      by (simp add: truthy_str_def)
  qed
  then show ?thesis by simp
qed

theorem text_branch_precedence_witness:
  "truthy_str (part_text (captioned_image_part (js ''done'') (js ''AAAA''))) \<and>
   scan_parts [captioned_image_part (js ''done'') (js ''AAAA'')] (None, Some (js ''old''))
     = (Some (js ''done''), Some (js ''old'')) \<and>
   fst (editImage (parts_host [captioned_image_part (js ''done'') (js ''AAAA'')]) (js ''brighter'')
          png_file fresh_world)
     = Inl (new_Error (js ''Failed to edit image. The AI did not return an edited image.''))"
proof -
  let ?p = "captioned_image_part (js ''done'') (js ''AAAA'')"
  have tr: "truthy_str (part_text ?p)"
    by (simp add: part_defs truthy_str_def js_def)
  have al: "\<forall>q \<in> set [?p]. part_inlineData q \<noteq> None \<longrightarrow> truthy_str (part_text q)"
    using tr by simp
  have g: "generateContent (parts_host [?p]) (GoogleGenAI (js ''k''))
      (editImage_request (js ''brighter'') png_file)
      = Inr \<lparr>response_text = None, candidates = [[?p]]\<rparr>"
    by (simp add: parts_host_def)
  have c: "candidates \<lparr>response_text = None, candidates = [[?p]]\<rparr> = [?p] # []"
    by simp
  have ga: "getAiInstance (parts_host [?p]) fresh_world = (Inr (GoogleGenAI (js ''k'')), keyed_world)"
    by (simp add: parts_host_def getAiInstance_fresh)
  note th = text_branch_precedence [of ?p "[]" "None" "Some (js ''old'')" "parts_host [?p]"
      fresh_world "GoogleGenAI (js ''k'')" keyed_world "js ''brighter''" png_file
      "\<lparr>response_text = None, candidates = [[?p]]\<rparr>" "[?p]" "[]"]
  from th tr have "scan_parts [?p] (None, Some (js ''old''))
      = (Some (js ''done''), Some (js ''old''))"
    by (simp add: part_defs)
  moreover from th ga g c al have "fst (editImage (parts_host [?p]) (js ''brighter'') png_file
      fresh_world)
     = Inl (new_Error (js ''Failed to edit image. The AI did not return an edited image.''))"
    by blast
  ultimately show ?thesis using tr by blast
qed

text \<open>
  The claim as stated fails on a part whose text is the empty string: the part has a
  text field and inline data, and the scan sets the result image from it.
\<close>

theorem text_branch_precedence_counterexample:
  "part_text (captioned_image_part [] (js ''AAAA'')) \<noteq> None \<and>
   part_inlineData (captioned_image_part [] (js ''AAAA'')) \<noteq> None \<and>
   scan_parts [captioned_image_part [] (js ''AAAA'')] (None, None)
     = (None, Some (js ''data:image/png;base64,AAAA'')) \<and>
   fst (editImage (parts_host [captioned_image_part [] (js ''AAAA'')]) (js ''brighter'')
          png_file fresh_world)
     = Inr \<lparr>result_text = None, result_image = Some (js ''data:image/png;base64,AAAA'')\<rparr>"
proof -
  have s: "scan_parts [captioned_image_part [] (js ''AAAA'')] (None, None)
     = (None, Some (js ''data:image/png;base64,AAAA''))"
    by (simp add: part_defs truthy_str_def data_uri_def template_str_def js_def)
  have "fst (editImage (parts_host [captioned_image_part [] (js ''AAAA'')]) (js ''brighter'')
          png_file fresh_world)
     = Inr \<lparr>result_text = None, result_image = Some (js ''data:image/png;base64,AAAA'')\<rparr>"
    by (simp only: editImage_parts_host s) (simp add: truthy_str_def js_def)
  with s show ?thesis by (simp add: part_defs)
qed

end
